theory Spec2Isabelle
  imports
    Complex_Main
    "HOL-Library.Multiset"
    "HOL-Library.Char_ord"
    "HOL-Library.List_Lexorder"
begin

section \<open>Data model\<close>

text \<open>
  The notebooks work on one pandas DataFrame read from a CSV file of game states.
  A frame is modelled row by row, in index order, and a row is a record of the columns
  the notebooks name. The one-hot encoding adds columns to the frame; they are added as
  record extensions, so the functions that run on both kinds of frame are stated for
  \<open>'a row_scheme\<close>.

  \<^item> \<open>GameDate\<close> is the column after \<^verbatim>\<open>pd.to_datetime\<close>: a timestamp in nanoseconds
    since the epoch, or \<open>None\<close> for pandas' \<^verbatim>\<open>NaT\<close> (an empty cell of the file).
  \<^item> \<open>MapName\<close> and \<open>BombSite\<close> are text columns; \<open>None\<close> is a missing cell (\<^verbatim>\<open>NaN\<close>).
  \<^item> \<open>CTWin\<close> is the label, an integer column.
  \<^item> \<open>Features\<close> holds the numeric columns (\<open>TicksSinceStart\<close>, \<open>CTEqVal\<close>, ...) by name;
    \<open>None\<close> is \<^verbatim>\<open>NaN\<close>.

  Python floats are idealised as real numbers throughout.
\<close>

record row =
  GameDate :: "int option"
  MapName :: "string option"
  BombSite :: "string option"
  CTWin :: int
  Features :: "string \<Rightarrow> real option"

datatype py_error = IndexError | ValueError

section \<open>Train/test split by date\<close>

text \<open>
  \<^verbatim>\<open>CUTOFF_DATE = "2019-12-15"\<close> in \<^verbatim>\<open>CSGO_Model_Tuning.ipynb\<close> and
  \<^verbatim>\<open>"2019-06-01"\<close> in the revised notebook; pandas turns the string into the
  timestamp of midnight of that day when it compares it with a datetime column.
\<close>

definition CUTOFF_DATE :: int where
  "CUTOFF_DATE = 1576368000 * 10 ^ 9"

definition CUTOFF_DATE_revised :: int where
  "CUTOFF_DATE_revised = 1559347200 * 10 ^ 9"

text \<open>
  \<^verbatim>\<open>df["GameDate"] < CUTOFF_DATE\<close> and \<^verbatim>\<open>df["GameDate"] >= CUTOFF_DATE\<close>: the two boolean
  masks. Every ordering comparison with \<^verbatim>\<open>NaT\<close> is \<^verbatim>\<open>False\<close>.
\<close>

definition date_lt :: "int option \<Rightarrow> int \<Rightarrow> bool" where
  "date_lt d c = (case d of None \<Rightarrow> False | Some t \<Rightarrow> t < c)"

definition date_ge :: "int option \<Rightarrow> int \<Rightarrow> bool" where
  "date_ge d c = (case d of None \<Rightarrow> False | Some t \<Rightarrow> t \<ge> c)"

text \<open>
  \<^verbatim>\<open>train_df = df[df["GameDate"] < CUTOFF_DATE]\<close>,
  \<^verbatim>\<open>test_df = df[df["GameDate"] >= CUTOFF_DATE]\<close>: selection by a mask keeps the rows
  whose mask entry is true, in their order.
\<close>

definition train_df :: "int \<Rightarrow> 'a row_scheme list \<Rightarrow> 'a row_scheme list" where
  "train_df cutoff df = filter (\<lambda>r. date_lt (GameDate r) cutoff) df"

definition test_df :: "int \<Rightarrow> 'a row_scheme list \<Rightarrow> 'a row_scheme list" where
  "test_df cutoff df = filter (\<lambda>r. date_ge (GameDate r) cutoff) df"

text \<open>Example rows: one with no date, one dated at the cutoff, one after it, one long before.\<close>

definition undated_row :: row where
  "undated_row = \<lparr>GameDate = None, MapName = Some ''de_nuke'', BombSite = Some ''A'',
     CTWin = 1, Features = (\<lambda>c. None)\<rparr>"

definition cutoff_row :: row where
  "cutoff_row = \<lparr>GameDate = Some CUTOFF_DATE, MapName = Some ''de_nuke'',
     BombSite = Some ''A'', CTWin = 0, Features = (\<lambda>c. None)\<rparr>"

definition late_row :: row where
  "late_row = \<lparr>GameDate = Some (CUTOFF_DATE + 1), MapName = Some ''de_dust2'',
     BombSite = Some ''B'', CTWin = 0, Features = (\<lambda>c. None)\<rparr>"

definition early_row :: row where
  "early_row = \<lparr>GameDate = Some 0, MapName = Some ''de_dust2'', BombSite = None,
     CTWin = 1, Features = (\<lambda>c. None)\<rparr>"

section \<open>Floats, series and printed output\<close>

text \<open>
  A Python float is a number or \<^verbatim>\<open>NaN\<close>; \<open>None\<close> stands for \<^verbatim>\<open>NaN\<close>. Arithmetic with
  \<^verbatim>\<open>NaN\<close> gives \<^verbatim>\<open>NaN\<close>, and every comparison with it is false.
\<close>

type_synonym float = "real option"

definition one_minus :: "float \<Rightarrow> float" where
  "one_minus p = map_option (\<lambda>x. 1 - x) p"

definition ge_half :: "float \<Rightarrow> bool" where
  "ge_half p = (case p of None \<Rightarrow> False | Some x \<Rightarrow> x \<ge> 1 / 2)"

text \<open>\<^verbatim>\<open>Series.mean()\<close> of an integer column: \<^verbatim>\<open>NaN\<close> when the column is empty.\<close>

definition series_mean :: "int list \<Rightarrow> float" where
  "series_mean xs = (if xs = [] then None else Some (real_of_int (sum_list xs) / real (length xs)))"

text \<open>\<^verbatim>\<open>Series.unique()\<close>: the distinct values in order of first appearance.\<close>

fun unique :: "'a list \<Rightarrow> 'a list" where
  "unique [] = []"
| "unique (x # xs) = x # unique (filter (\<lambda>y. y \<noteq> x) xs)"

text \<open>Equality of two text cells as \<^verbatim>\<open>==\<close> computes it: a missing cell equals nothing.\<close>

definition cell_eq :: "string option \<Rightarrow> string option \<Rightarrow> bool" where
  "cell_eq a b = (a \<noteq> None \<and> a = b)"

text \<open>\<^verbatim>\<open>np.column_stack((a, b))\<close> of two columns of one frame: the rows \<open>[a\<^sub>i, b\<^sub>i]\<close>.\<close>

definition column_stack :: "'a list \<Rightarrow> 'a list \<Rightarrow> 'a list list" where
  "column_stack a b = map (\<lambda>(x, y). [x, y]) (zip a b)"

text \<open>\<^verbatim>\<open>m[:, k]\<close>: column \<open>k\<close> of a matrix given by its rows; IndexError when there is no such column.\<close>

definition column :: "nat \<Rightarrow> 'a list list \<Rightarrow> py_error + 'a list" where
  "column k m = (if \<exists>r \<in> set m. length r \<le> k then Inl IndexError else Inr (map (\<lambda>r. r ! k) m))"

text \<open>What \<^verbatim>\<open>print\<close> writes: a header text or a number.\<close>

datatype line = Text string | Value float

section \<open>The metrics of scikit-learn\<close>

text \<open>
  The four metric functions are scikit-learn's, as documented for the release whose
  warnings the recorded outputs show (0.21). Each validates its input and raises
  ValueError on arrays of different lengths, on no samples and on \<^verbatim>\<open>NaN\<close>.
\<close>

definition has_nan :: "float list \<Rightarrow> bool" where
  "has_nan s = (None \<in> set s)"

definition classes :: "int list \<Rightarrow> int list" where
  "classes y = sort (remdups y)"

text \<open>
  \<^verbatim>\<open>log_loss(y_true, y_pred)\<close>: the labels are taken from \<open>y_true\<close>; one label only, or a
  number of labels different from the number of columns, is a ValueError. Probabilities
  are clipped to \<open>[eps, 1 - eps]\<close>, rows renormalised, and the mean negative log
  probability of the true class is returned.
\<close>

definition eps :: real where
  "eps = 1 / 10 ^ 15"

definition clip :: "real \<Rightarrow> real" where
  "clip x = max eps (min (1 - eps) x)"

definition class_index :: "int list \<Rightarrow> int \<Rightarrow> nat" where
  "class_index cs l = length (takeWhile (\<lambda>c. c \<noteq> l) cs)"

definition row_loss :: "int list \<Rightarrow> int \<Rightarrow> float list \<Rightarrow> real" where
  "row_loss cs l r =
     - ln (clip (the (r ! class_index cs l)) / sum_list (map (\<lambda>p. clip (the p)) r))"

definition log_loss :: "int list \<Rightarrow> float list list \<Rightarrow> py_error + float" where
  "log_loss y P =
     (if length y \<noteq> length P \<or> y = [] \<or> (\<exists>r \<in> set P. has_nan r) then Inl ValueError
      else if length (classes y) = 1 then Inl ValueError
      else if \<exists>r \<in> set P. length r \<noteq> length (classes y) then Inl ValueError
      else Inr (Some (sum_list (map (\<lambda>(l, r). row_loss (classes y) l r) (zip y P))
                       / real (length y))))"

text \<open>
  \<^verbatim>\<open>brier_score_loss(y_true, y_prob)\<close>: the positive label is the greatest label; a
  probability outside \<open>[0, 1]\<close> is a ValueError. With a single label present the release
  binarises every target to 0.
\<close>

definition brier_target :: "int list \<Rightarrow> int \<Rightarrow> real" where
  "brier_target y l = (if length (classes y) = 1 then 0 else if l = Max (set y) then 1 else 0)"

definition brier_score_loss :: "int list \<Rightarrow> float list \<Rightarrow> py_error + float" where
  "brier_score_loss y s =
     (if length y \<noteq> length s \<or> y = [] \<or> has_nan s then Inl ValueError
      else if \<exists>p \<in> set s. the p > 1 \<or> the p < 0 then Inl ValueError
      else Inr (Some (sum_list (map (\<lambda>(l, p). (brier_target y l - the p) ^ 2) (zip y s))
                       / real (length y))))"

text \<open>
  \<^verbatim>\<open>roc_auc_score(y_true, y_score)\<close>: defined for exactly two labels, the greater one
  positive; anything else is a ValueError. The area under the ROC curve is the share of
  (positive, negative) pairs that the score orders correctly, a tie counting one half.
\<close>

definition pair_score :: "real \<Rightarrow> real \<Rightarrow> real" where
  "pair_score p n = (if p > n then 1 else if p = n then 1 / 2 else 0)"

definition roc_auc_score :: "int list \<Rightarrow> float list \<Rightarrow> py_error + float" where
  "roc_auc_score y s =
     (if length y \<noteq> length s \<or> y = [] \<or> has_nan s then Inl ValueError
      else if length (classes y) \<noteq> 2 then Inl ValueError
      else let pos = map (\<lambda>(l, p). the p) (filter (\<lambda>(l, p). l = Max (set y)) (zip y s));
               neg = map (\<lambda>(l, p). the p) (filter (\<lambda>(l, p). l \<noteq> Max (set y)) (zip y s))
           in Inr (Some (sum_list (map (\<lambda>p. sum_list (map (\<lambda>n. pair_score p n) neg)) pos)
                          / (real (length pos) * real (length neg)))))"

text \<open>
  \<^verbatim>\<open>accuracy_score(y_true, y_pred)\<close> with a boolean prediction: the share of rows whose
  label equals the prediction read as 0 or 1; \<^verbatim>\<open>NaN\<close> on no rows.
\<close>

definition accuracy_score :: "int list \<Rightarrow> bool list \<Rightarrow> py_error + float" where
  "accuracy_score y b =
     (if length y \<noteq> length b then Inl ValueError
      else if y = [] then Inr None
      else Inr (Some (real (length (filter (\<lambda>(l, c). l = (if c then 1 else 0)) (zip y b)))
                       / real (length y))))"

section \<open>Reporting\<close>

text \<open>
  \<^verbatim>\<open>print_results(y_true_labels, y_pred_probs)\<close>. Each header is printed before its metric
  is computed, so an exception leaves the lines printed so far. The result is the printed
  lines and the exception raised, if any.
\<close>

definition print_results :: "int list \<Rightarrow> float list list \<Rightarrow> line list \<times> py_error option" where
  "print_results y_true_labels y_pred_probs =
     (let out1 = [Text ''---------- LOG LOSS''] in
      case log_loss y_true_labels y_pred_probs of Inl e \<Rightarrow> (out1, Some e) | Inr ll \<Rightarrow>
      let out2 = out1 @ [Value ll, Text ''---------- BRIER SCORE''] in
      case column 1 y_pred_probs of Inl e \<Rightarrow> (out2, Some e) | Inr p1 \<Rightarrow>
      case brier_score_loss y_true_labels p1 of Inl e \<Rightarrow> (out2, Some e) | Inr bs \<Rightarrow>
      let out3 = out2 @ [Value bs, Text ''---------- AUC''] in
      case roc_auc_score y_true_labels p1 of Inl e \<Rightarrow> (out3, Some e) | Inr auc \<Rightarrow>
      let out4 = out3 @ [Value auc, Text ''---------- ACCURACY''] in
      case accuracy_score y_true_labels (map ge_half p1) of Inl e \<Rightarrow> (out4, Some e) | Inr acc \<Rightarrow>
      (out4 @ [Value acc], None))"

section \<open>Baselines\<close>

text \<open>
  The frequency baseline: \<^verbatim>\<open>test_df["BaselinePred"] = train_df.CTWin.mean()\<close> gives every
  test row the same value, and the next line reports it.
\<close>

definition BaselinePred :: "'a row_scheme list \<Rightarrow> 'b row_scheme list \<Rightarrow> ('b row_scheme \<times> float) list" where
  "BaselinePred train test = map (\<lambda>r. (r, series_mean (map CTWin train))) test"

definition pred_matrix :: "('b row_scheme \<times> float) list \<Rightarrow> float list list" where
  "pred_matrix t = column_stack (map (\<lambda>(r, p). one_minus p) t) (map (\<lambda>(r, p). p) t)"

definition baseline :: "'a row_scheme list \<Rightarrow> 'b row_scheme list \<Rightarrow> line list \<times> py_error option" where
  "baseline train test =
     (let t = BaselinePred train test in print_results (map (\<lambda>(r, p). CTWin r) t) (pred_matrix t))"

text \<open>
  \<^verbatim>\<open>train.groupby("MapName").CTWin.mean().reset_index()\<close>: one row per map name of the
  training frame, sorted by name, rows without a map name left out.
\<close>

definition map_win_rate :: "'a row_scheme list \<Rightarrow> (string \<times> float) list" where
  "map_win_rate train =
     map (\<lambda>m. (m, series_mean (map CTWin (filter (\<lambda>r. MapName r = Some m) train))))
       (sort (remdups (List.map_filter MapName train)))"

text \<open>
  The loop of \<^verbatim>\<open>baseline_map\<close> over \<^verbatim>\<open>test["MapName"].unique()\<close>. The frame \<open>test\<close>
  carries the column \<open>PredMapWinRate\<close>; \<^verbatim>\<open>.values[0]\<close> of an empty selection raises
  IndexError.
\<close>

fun map_loop :: "(string \<times> float) list \<Rightarrow> ('b row_scheme \<times> float) list \<Rightarrow> string option list
    \<Rightarrow> ('b row_scheme \<times> float) list list \<Rightarrow> py_error + ('b row_scheme \<times> float) list list" where
  "map_loop mwr test [] map_subset_df = Inr map_subset_df"
| "map_loop mwr test (map_name # names) map_subset_df =
     (let subset_map = filter (\<lambda>(r, p). cell_eq (MapName r) map_name) test in
      case filter (\<lambda>(m, w). cell_eq (Some m) map_name) mwr of
        [] \<Rightarrow> Inl IndexError
      | (m, w) # _ \<Rightarrow>
          map_loop mwr test names (map_subset_df @ [map (\<lambda>(r, p). (r, w)) subset_map]))"

text \<open>\<^verbatim>\<open>pd.concat\<close> of a list of frames; ValueError when the list is empty.\<close>

definition pd_concat :: "'a list list \<Rightarrow> py_error + 'a list" where
  "pd_concat fs = (if fs = [] then Inl ValueError else Inr (concat fs))"

text \<open>The frame \<open>test\<close> that \<^verbatim>\<open>baseline_map\<close> passes to \<^verbatim>\<open>print_results\<close>.\<close>

definition baseline_map_frame :: "'a row_scheme list \<Rightarrow> 'b row_scheme list
    \<Rightarrow> py_error + ('b row_scheme \<times> float) list" where
  "baseline_map_frame train test =
     (let test1 = map (\<lambda>r. (r, Some (1 / 2))) test in
      case map_loop (map_win_rate train) test1 (unique (map MapName test)) [] of
        Inl e \<Rightarrow> Inl e
      | Inr map_subset_df \<Rightarrow> pd_concat map_subset_df)"

definition baseline_map :: "'a row_scheme list \<Rightarrow> 'b row_scheme list \<Rightarrow> line list \<times> py_error option" where
  "baseline_map train test =
     (case baseline_map_frame train test of
        Inl e \<Rightarrow> ([], Some e)
      | Inr t \<Rightarrow> print_results (map (\<lambda>(r, p). CTWin r) t) (pred_matrix t))"

section \<open>One-hot encoding\<close>

text \<open>
  \<^verbatim>\<open>pd.get_dummies(df, columns=[c], drop_first=False)\<close> removes column \<open>c\<close> and adds one
  indicator column \<open>c_v\<close> (of 0 and 1) for every value \<open>v\<close> that occurs in \<open>c\<close>, in sorted
  order of the values. Missing cells are no value (\<^verbatim>\<open>dummy_na\<close> is off): a row with a
  missing cell gets 0 in every indicator column.

  The indicator columns of a row are an association list from column name to 0 or 1.
\<close>

type_synonym dummies = "(string \<times> nat) list"

definition levels :: "string option list \<Rightarrow> string list" where
  "levels col = sort (remdups (List.map_filter (\<lambda>v. v) col))"

definition dummy_name :: "string \<Rightarrow> string \<Rightarrow> string" where
  "dummy_name prefix v = prefix @ ''_'' @ v"

definition get_dummies :: "string \<Rightarrow> string option list \<Rightarrow> dummies list" where
  "get_dummies prefix col =
     map (\<lambda>c. map (\<lambda>v. (dummy_name prefix v, if c = Some v then 1 else 0)) (levels col)) col"

text \<open>The frame with the indicator columns of \<open>MapName\<close>, and with those of \<open>BombSite\<close> too.\<close>

record mrow = row +
  MapName_dummies :: dummies

record brow = mrow +
  BombSite_dummies :: dummies

text \<open>
  \<^verbatim>\<open>df = pd.get_dummies(df, columns = ["MapName"], drop_first = False)\<close>. The frame that
  comes back has no column \<open>MapName\<close>; the field is blanked, and the notebooks read it
  only after the next line has put the column back.
\<close>

definition get_dummies_MapName :: "row list \<Rightarrow> mrow list" where
  "get_dummies_MapName df =
     map (\<lambda>(r, d). \<lparr>GameDate = GameDate r, MapName = None, BombSite = BombSite r,
                     CTWin = CTWin r, Features = Features r, MapName_dummies = d\<rparr>)
       (zip df (get_dummies ''MapName'' (map MapName df)))"

text \<open>\<^verbatim>\<open>df["MapName"] = map_names\<close>: the saved column, row by row.\<close>

definition set_MapName :: "'a row_scheme list \<Rightarrow> string option list \<Rightarrow> 'a row_scheme list" where
  "set_MapName df col = map (\<lambda>(r, m). r\<lparr>MapName := m\<rparr>) (zip df col)"

text \<open>The preprocessing cell of \<^verbatim>\<open>CSGO_Model_Tuning.ipynb\<close>, after the date conversion.\<close>

definition preprocess :: "row list \<Rightarrow> mrow list" where
  "preprocess df =
     (let map_names = map MapName df;
          df1 = get_dummies_MapName df
      in set_MapName df1 map_names)"

text \<open>The revised notebook goes on to encode \<open>BombSite\<close> in the same way.\<close>

definition get_dummies_BombSite :: "mrow list \<Rightarrow> brow list" where
  "get_dummies_BombSite df =
     map (\<lambda>(r, d). \<lparr>GameDate = GameDate r, MapName = MapName r, BombSite = None,
                     CTWin = CTWin r, Features = Features r, MapName_dummies = MapName_dummies r,
                     BombSite_dummies = d\<rparr>)
       (zip df (get_dummies ''BombSite'' (map BombSite df)))"

definition set_BombSite :: "'a row_scheme list \<Rightarrow> string option list \<Rightarrow> 'a row_scheme list" where
  "set_BombSite df col = map (\<lambda>(r, b). r\<lparr>BombSite := b\<rparr>) (zip df col)"

definition preprocess_revised :: "row list \<Rightarrow> brow list" where
  "preprocess_revised df =
     (let df2 = preprocess df;
          bombsites = map BombSite df2;
          df3 = get_dummies_BombSite df2
      in set_BombSite df3 bombsites)"

text \<open>A row of the file with an empty \<open>MapName\<close> cell.\<close>

definition unmapped_row :: row where
  "unmapped_row = \<lparr>GameDate = Some 0, MapName = None, BombSite = Some ''A'',
     CTWin = 0, Features = (\<lambda>c. None)\<rparr>"

section \<open>Standardization\<close>

text \<open>
  \<^verbatim>\<open>X_train_ALL\<close> and \<^verbatim>\<open>X_test_ALL\<close> are the columns \<^verbatim>\<open>COLS_ALL\<close> of the two frames
  after \<^verbatim>\<open>dropna\<close>, so no cell is missing: a row of a design matrix maps a column
  name to a number.
\<close>

type_synonym xrow = "string \<Rightarrow> real"

definition cols_scaled :: "string list" where
  "cols_scaled = [''TicksSinceStart'', ''CTEqVal'', ''TEqVal'', ''TRemaining'', ''CTRemaining'',
     ''THpRemaining'', ''CTHpRemaining'', ''BombPlanted'', ''CTDistBombsiteA'',
     ''CTDistBombsiteB'', ''TDistBombsiteA'', ''TDistBombsiteB'']"

text \<open>\<^verbatim>\<open>X[cols].values\<close>: the matrix of the named columns, row by row.\<close>

definition values_of :: "string list \<Rightarrow> xrow list \<Rightarrow> real list list" where
  "values_of cols X = map (\<lambda>r. map r cols) X"

text \<open>\<^verbatim>\<open>X[cols] = M\<close>: column \<open>j\<close> of the matrix becomes the column named \<open>cols[j]\<close>.\<close>

definition assign_row :: "string list \<Rightarrow> real list \<Rightarrow> xrow \<Rightarrow> xrow" where
  "assign_row cols v r = fold (\<lambda>(c, x) r. r(c := x)) (zip cols v) r"

definition assign :: "string list \<Rightarrow> real list list \<Rightarrow> xrow list \<Rightarrow> xrow list" where
  "assign cols M X = map (\<lambda>(r, v). assign_row cols v r) (zip X M)"

text \<open>
  scikit-learn's \<^verbatim>\<open>StandardScaler\<close>. \<^verbatim>\<open>fit\<close> stores the mean of every column and its
  standard deviation (the population one, dividing by the number of rows); a standard
  deviation of zero is replaced by 1, so that a constant column is only centred. Both
  \<^verbatim>\<open>fit\<close> and \<^verbatim>\<open>transform\<close> raise ValueError on a matrix without rows, and
  \<^verbatim>\<open>transform\<close> on a matrix with another number of columns.
\<close>

record scaler =
  mean_of :: "real list"
  scale_of :: "real list"

definition columns :: "real list list \<Rightarrow> real list list" where
  "columns M = map (\<lambda>j. map (\<lambda>r. r ! j) M) [0..<length (hd M)]"

definition np_mean :: "real list \<Rightarrow> real" where
  "np_mean xs = sum_list xs / real (length xs)"

definition np_var :: "real list \<Rightarrow> real" where
  "np_var xs = np_mean (map (\<lambda>x. (x - np_mean xs) ^ 2) xs)"

definition handle_zeros_in_scale :: "real \<Rightarrow> real" where
  "handle_zeros_in_scale s = (if s = 0 then 1 else s)"

definition fit :: "real list list \<Rightarrow> py_error + scaler" where
  "fit M =
     (if M = [] then Inl ValueError
      else Inr \<lparr>mean_of = map np_mean (columns M),
                scale_of = map (\<lambda>c. handle_zeros_in_scale (sqrt (np_var c))) (columns M)\<rparr>)"

definition transform :: "scaler \<Rightarrow> real list list \<Rightarrow> py_error + real list list" where
  "transform sc M =
     (if M = [] \<or> (\<exists>r \<in> set M. length r \<noteq> length (mean_of sc)) then Inl ValueError
      else Inr (map (\<lambda>r. map (\<lambda>(x, m, s). (x - m) / s) (zip r (zip (mean_of sc) (scale_of sc)))) M))"

text \<open>
  The standardization of the logistic-regression cell of the revised notebook: the scaler
  is fitted on the training columns and applied to the training and to the test columns.
\<close>

definition standardize :: "xrow list \<Rightarrow> xrow list \<Rightarrow> py_error + (xrow list \<times> xrow list)" where
  "standardize X_train_ALL X_test_ALL =
     (let features_scaled = values_of cols_scaled X_train_ALL in
      case fit features_scaled of Inl e \<Rightarrow> Inl e | Inr scaler \<Rightarrow>
      case transform scaler features_scaled of Inl e \<Rightarrow> Inl e | Inr features_scaled \<Rightarrow>
      let X_train_ALL_scaled = assign cols_scaled features_scaled X_train_ALL;
          features_scaled_test = values_of cols_scaled X_test_ALL in
      case transform scaler features_scaled_test of Inl e \<Rightarrow> Inl e | Inr features_scaled_test \<Rightarrow>
      Inr (X_train_ALL_scaled, assign cols_scaled features_scaled_test X_test_ALL))"

text \<open>
  The statistics the specification names: the mean and the standard deviation of a
  column over the training rows.
\<close>

definition train_mean :: "xrow list \<Rightarrow> string \<Rightarrow> real" where
  "train_mean X c = (\<Sum>r\<leftarrow>X. r c) / real (length X)"

definition train_std :: "xrow list \<Rightarrow> string \<Rightarrow> real" where
  "train_std X c = sqrt ((\<Sum>r\<leftarrow>X. (r c - train_mean X c) ^ 2) / real (length X))"

text \<open>Two rows of a design matrix: every column 0, and every column 1.\<close>

definition all_zero :: xrow where
  "all_zero = (\<lambda>c. 0)"

definition all_one :: xrow where
  "all_one = (\<lambda>c. 1)"

section \<open>Hyperparameter tuning\<close>

text \<open>
  A parameter setting is a list of (name, value) pairs, a grid a list of (name, values)
  pairs. \<^verbatim>\<open>xgb_params\<close> of \<^verbatim>\<open>CSGO_Model_Tuning.ipynb\<close> and of the revised notebook:
\<close>

type_synonym params = "(string \<times> real) list"

type_synonym grid = "(string \<times> real list) list"

definition xgb_params :: grid where
  "xgb_params =
     [(''max_depth'', [6, 8, 10, 12, 14]),
      (''lambda'', [1, 3, 5]),
      (''gamma'', [0, 1 / 2, 1, 3]),
      (''colsample_bytree'', [2 / 10, 4 / 10, 6 / 10, 8 / 10])]"


text \<open>
  The estimator that is tuned: \<^verbatim>\<open>XGBClassifier(learning_rate=0.1, n_estimators=100,
  objective="logloss", tree_method="gpu_hist", gpu_id=0)\<close> in
  \<^verbatim>\<open>CSGO_Model_Tuning.ipynb\<close>, and \<^verbatim>\<open>XGBClassifier(n_estimators=100,
  objective="binary:logistic", tree_method="gpu_hist", gpu_id=0)\<close> in the revised notebook.
\<close>

record estimator =
  objective :: string
  tree_method :: string
  fixed :: params

definition xgb :: estimator where
  "xgb = \<lparr>objective = ''logloss'', tree_method = ''gpu_hist'',
     fixed = [(''learning_rate'', 1 / 10), (''n_estimators'', 100), (''gpu_id'', 0)]\<rparr>"


text \<open>
  The boosting library is a parameter of the model. \<open>fit_estimator est c rows\<close> is what fitting
  the estimator \<open>est\<close> with the grid setting \<open>c\<close> on the labelled rows gives: a model, or
  the exception the library raises (on settings it does not accept, on a missing device,
  ...). \<open>predict_proba m X\<close> is the matrix of class probabilities of the model \<open>m\<close> for
  the rows \<open>X\<close>.
\<close>

record 'm booster =
  fit_estimator :: "estimator \<Rightarrow> params \<Rightarrow> (xrow \<times> int) list \<Rightarrow> py_error + 'm"
  predict_proba :: "'m \<Rightarrow> xrow list \<Rightarrow> float list list"

text \<open>
  scikit-learn's \<^verbatim>\<open>ParameterGrid\<close>: the names in sorted order, and every choice of one
  value per name, the last name varying fastest.
\<close>

fun product :: "grid \<Rightarrow> params list" where
  "product [] = [[]]"
| "product ((k, vs) # g) = concat (map (\<lambda>v. map (\<lambda>c. (k, v) # c) (product g)) vs)"

definition ParameterGrid :: "grid \<Rightarrow> params list" where
  "ParameterGrid g = product (sort_key fst g)"

text \<open>
  \<^verbatim>\<open>KFold(n_splits, shuffle=True, random_state=...)\<close> on \<open>n\<close> rows. The shuffled row
  indices (what the random state makes of \<open>0, ..., n - 1\<close>) are cut into \<open>n_splits\<close>
  consecutive folds, the first \<open>n mod n_splits\<close> of them one row longer; every fold is
  once the test part, the other rows the training part, both in index order. More splits
  than rows is a ValueError.
\<close>

definition fold_sizes :: "nat \<Rightarrow> nat \<Rightarrow> nat list" where
  "fold_sizes n k = map (\<lambda>i. n div k + (if i < n mod k then 1 else 0)) [0..<k]"

fun chunks :: "nat list \<Rightarrow> 'a list \<Rightarrow> 'a list list" where
  "chunks [] xs = []"
| "chunks (s # ss) xs = take s xs # chunks ss (drop s xs)"

definition KFold_split :: "nat \<Rightarrow> nat list \<Rightarrow> py_error + (nat list \<times> nat list) list" where
  "KFold_split n_splits indices =
     (if n_splits > length indices then Inl ValueError
      else Inr (map (\<lambda>chunk. (filter (\<lambda>i. i \<notin> set chunk) [0..<length indices],
                               filter (\<lambda>i. i \<in> set chunk) [0..<length indices]))
                  (chunks (fold_sizes (length indices) n_splits) indices)))"

text \<open>
  The scorer \<^verbatim>\<open>"neg_log_loss"\<close>: the negated \<^verbatim>\<open>log_loss\<close> of the labels and the
  predicted probabilities. Another name is a ValueError here.
\<close>

definition neg_log_loss :: "(xrow list \<Rightarrow> float list list) \<Rightarrow> xrow list \<Rightarrow> int list \<Rightarrow> py_error + real" where
  "neg_log_loss proba X y = (case log_loss y (proba X) of Inl e \<Rightarrow> Inl e | Inr v \<Rightarrow> Inr (- the v))"

definition get_scorer :: "string
    \<Rightarrow> py_error + ((xrow list \<Rightarrow> float list list) \<Rightarrow> xrow list \<Rightarrow> int list \<Rightarrow> py_error + real)" where
  "get_scorer scoring = (if scoring = ''neg_log_loss'' then Inr neg_log_loss else Inl ValueError)"

text \<open>A sequence of calls stops at the first exception.\<close>

fun collect :: "(py_error + 'a) list \<Rightarrow> py_error + 'a list" where
  "collect [] = Inr []"
| "collect (Inl e # rs) = Inl e"
| "collect (Inr x # rs) = (case collect rs of Inl e \<Rightarrow> Inl e | Inr xs \<Rightarrow> Inr (x # xs))"

text \<open>
  One fit of the search: the estimator with the setting \<open>c\<close> is trained on the training
  part of a fold and scored on its test part.
\<close>

definition fit_and_score :: "'m booster \<Rightarrow> estimator
    \<Rightarrow> ((xrow list \<Rightarrow> float list list) \<Rightarrow> xrow list \<Rightarrow> int list \<Rightarrow> py_error + real)
    \<Rightarrow> (xrow \<times> int) list \<Rightarrow> params \<Rightarrow> nat list \<times> nat list \<Rightarrow> py_error + real" where
  "fit_and_score lib est scorer data c split =
     (case split of (train_index, test_index) \<Rightarrow>
        case fit_estimator lib est c (map (\<lambda>i. data ! i) train_index) of
          Inl e \<Rightarrow> Inl e
        | Inr m \<Rightarrow> scorer (predict_proba lib m) (map (\<lambda>i. fst (data ! i)) test_index)
                     (map (\<lambda>i. snd (data ! i)) test_index))"

text \<open>
  The mean test score of a setting: the scores of the folds, averaged with the sizes of
  the test parts as weights (the default \<^verbatim>\<open>iid\<close> of the release).
\<close>

definition weighted_mean :: "real list \<Rightarrow> nat list \<Rightarrow> real" where
  "weighted_mean ss ws = sum_list (map (\<lambda>(s, w). s * real w) (zip ss ws)) / real (sum_list ws)"

definition mean_test_score :: "'m booster \<Rightarrow> estimator
    \<Rightarrow> ((xrow list \<Rightarrow> float list list) \<Rightarrow> xrow list \<Rightarrow> int list \<Rightarrow> py_error + real)
    \<Rightarrow> (xrow \<times> int) list \<Rightarrow> (nat list \<times> nat list) list \<Rightarrow> params \<Rightarrow> py_error + real" where
  "mean_test_score lib est scorer data folds c =
     (case collect (map (fit_and_score lib est scorer data c) folds) of
        Inl e \<Rightarrow> Inl e
      | Inr ss \<Rightarrow> Inr (weighted_mean ss (map (\<lambda>(train_index, test_index). length test_index) folds)))"

text \<open>
  scikit-learn's \<^verbatim>\<open>GridSearchCV(...).fit(X, y)\<close>. The folds are made once; every setting
  of the grid is fitted and scored on every fold, and an exception of a fit or of a scorer
  ends the search. The best setting is the first with the highest mean test score
  (rank 1), and \<^verbatim>\<open>best_estimator_\<close> is the estimator refitted with it on all rows. A grid
  without settings is a ValueError.
\<close>

record 'm search =
  cv_results :: "(params \<times> real) list"
  best_params :: params
  best_estimator :: 'm

fun best_of :: "(params \<times> real) list \<Rightarrow> params \<times> real \<Rightarrow> params \<times> real" where
  "best_of [] b = b"
| "best_of (x # xs) b = best_of xs (if snd x > snd b then x else b)"

definition GridSearchCV_fit :: "'m booster \<Rightarrow> estimator \<Rightarrow> grid \<Rightarrow> nat \<Rightarrow> (nat \<Rightarrow> nat list)
    \<Rightarrow> string \<Rightarrow> (xrow \<times> int) list \<Rightarrow> py_error + 'm search" where
  "GridSearchCV_fit lib est param_grid n_splits shuffled scoring data =
     (case get_scorer scoring of Inl e \<Rightarrow> Inl e | Inr scorer \<Rightarrow>
      case KFold_split n_splits (shuffled (length data)) of Inl e \<Rightarrow> Inl e | Inr folds \<Rightarrow>
      case collect (map (\<lambda>c. case mean_test_score lib est scorer data folds c of
                               Inl e \<Rightarrow> Inl e | Inr v \<Rightarrow> Inr (c, v))
                     (ParameterGrid param_grid)) of
        Inl e \<Rightarrow> Inl e
      | Inr [] \<Rightarrow> Inl ValueError
      | Inr (r # rs) \<Rightarrow>
          let best = fst (best_of rs r) in
          case fit_estimator lib est best data of
            Inl e \<Rightarrow> Inl e
          | Inr m \<Rightarrow> Inr \<lparr>cv_results = r # rs, best_params = best, best_estimator = m\<rparr>)"

text \<open>
  The tuning cell: \<^verbatim>\<open>xgb_cv.fit(X_train_ALL, y_train)\<close> with
  \<^verbatim>\<open>KFold(n_splits=5, ...)\<close> and \<^verbatim>\<open>scoring="neg_log_loss"\<close>; then
  \<^verbatim>\<open>xgb_all = xgb_cv.best_estimator_\<close> is written to the models directory with
  \<^verbatim>\<open>save_model\<close>, the best setting is printed, and \<^verbatim>\<open>xgb_all.predict_proba(X_test_ALL)\<close>
  goes to \<^verbatim>\<open>print_results\<close>. The state after the cell is the models directory (file name
  to model), what the print calls of the cell wrote (the progress lines of
  \<^verbatim>\<open>verbose=True\<close> are left out), and the exception raised, if any. Nothing in the cell
  guards the search: when it raises, nothing is saved and no result is printed.
\<close>

datatype out_line = BestParams params | Metric line

record 'm cell_state =
  models_dir :: "string \<rightharpoonup> 'm"
  printed :: "out_line list"
  raised :: "py_error option"

definition tuning_cell :: "'m booster \<Rightarrow> estimator \<Rightarrow> grid \<Rightarrow> string \<Rightarrow> (nat \<Rightarrow> nat list)
    \<Rightarrow> (xrow \<times> int) list \<Rightarrow> xrow list \<Rightarrow> int list \<Rightarrow> 'm cell_state" where
  "tuning_cell lib est param_grid file_name shuffled train_data X_test y_test =
     (case GridSearchCV_fit lib est param_grid 5 shuffled ''neg_log_loss'' train_data of
        Inl e \<Rightarrow> \<lparr>models_dir = Map.empty, printed = [], raised = Some e\<rparr>
      | Inr xgb_cv \<Rightarrow>
          let xgb_all = best_estimator xgb_cv;
              xgb_all_test_probs = predict_proba lib xgb_all X_test;
              report = print_results y_test xgb_all_test_probs
          in \<lparr>models_dir = [file_name \<mapsto> xgb_all],
              printed = BestParams (best_params xgb_cv) # map Metric (fst report),
              raised = snd report\<rparr>)"

definition xgb_tuning :: "'m booster \<Rightarrow> (nat \<Rightarrow> nat list)
    \<Rightarrow> (xrow \<times> int) list \<Rightarrow> xrow list \<Rightarrow> int list \<Rightarrow> 'm cell_state" where
  "xgb_tuning lib = tuning_cell lib xgb xgb_params ''models/xgboost_all_features.model''"






section \<open>Properties of the split\<close>

lemmas example_rows = undated_row_def cutoff_row_def early_row_def late_row_def


lemma date_lt_ge_exclusive: "\<not> (date_lt d c \<and> date_ge d c)"
  by (cases d) (simp_all add: date_lt_def date_ge_def)

lemma date_lt_or_ge: "date_lt d c \<or> date_ge d c \<longleftrightarrow> d \<noteq> None"
  by (cases d) (auto simp: date_lt_def date_ge_def)

lemma split_mset:
  "mset (train_df c df) + mset (test_df c df) = mset (filter (\<lambda>r. GameDate r \<noteq> None) df)"
proof (induction df)
  case Nil
  show ?case by (simp add: train_df_def test_df_def)
next
  case (Cons r df)
  show ?case
  proof (cases "GameDate r")
    case None
    with Cons show ?thesis
      by (simp add: train_df_def test_df_def date_lt_def date_ge_def)
  next
    case (Some t)
    with Cons show ?thesis
      by (cases "t < c") (simp_all add: train_df_def test_df_def date_lt_def date_ge_def)
  qed
qed

text \<open>
  C1, as stated: train and test are disjoint and together hold every row of the frame.
  This fails for a row without a date, which both masks reject.
\<close>

theorem C1_undated_row_in_neither_set:
  "train_df CUTOFF_DATE [undated_row] = [] \<and> test_df CUTOFF_DATE [undated_row] = []
   \<and> set (train_df CUTOFF_DATE [undated_row]) \<union> set (test_df CUTOFF_DATE [undated_row])
       \<noteq> set [undated_row]"
  by (simp add: train_df_def test_df_def date_lt_def date_ge_def undated_row_def)

text \<open>
  C1, amended: a row is in the training set exactly when it has a date strictly before
  the cutoff, and in the test set exactly when it has a date on or after the cutoff. The
  two sets are disjoint, and together they hold, with multiplicity, exactly the rows that
  have a date; a row without a date is in neither. A row dated exactly at the cutoff is in
  the test set.
\<close>

theorem C1_split_by_date:
  "(r \<in> set (train_df c df) \<longleftrightarrow> r \<in> set df \<and> (\<exists>t. GameDate r = Some t \<and> t < c))
   \<and> (r \<in> set (test_df c df) \<longleftrightarrow> r \<in> set df \<and> (\<exists>t. GameDate r = Some t \<and> c \<le> t))
   \<and> set (train_df c df) \<inter> set (test_df c df) = {}
   \<and> mset (train_df c df) + mset (test_df c df) = mset (filter (\<lambda>r. GameDate r \<noteq> None) df)
   \<and> (r \<in> set (test_df c df) \<longleftrightarrow> r \<notin> set (train_df c df) \<and> r \<in> set df \<and> GameDate r \<noteq> None)
   \<and> (r \<in> set df \<and> GameDate r = Some c \<longrightarrow> r \<in> set (test_df c df) \<and> r \<notin> set (train_df c df))"
proof -
  have tr: "r \<in> set (train_df c df) \<longleftrightarrow> r \<in> set df \<and> (\<exists>t. GameDate r = Some t \<and> t < c)"
    by (cases "GameDate r") (auto simp: train_df_def date_lt_def)
  have te: "r \<in> set (test_df c df) \<longleftrightarrow> r \<in> set df \<and> (\<exists>t. GameDate r = Some t \<and> c \<le> t)"
    by (cases "GameDate r") (auto simp: test_df_def date_ge_def)
  have dj: "set (train_df c df) \<inter> set (test_df c df) = {}"
    using date_lt_ge_exclusive by (auto simp: train_df_def test_df_def)
  have co: "r \<in> set (test_df c df) \<longleftrightarrow> r \<notin> set (train_df c df) \<and> r \<in> set df \<and> GameDate r \<noteq> None"
    unfolding tr te by (cases "GameDate r") auto
  have cu: "r \<in> set df \<and> GameDate r = Some c \<longrightarrow> r \<in> set (test_df c df) \<and> r \<notin> set (train_df c df)"
    unfolding tr te by auto
  from tr te dj split_mset [of c df] co cu show ?thesis by blast
qed

theorem C1_split_by_date_witness:
  "cutoff_row \<in> set [early_row, undated_row, cutoff_row]
   \<and> GameDate cutoff_row = Some CUTOFF_DATE
   \<and> cutoff_row \<in> set (test_df CUTOFF_DATE [early_row, undated_row, cutoff_row])
   \<and> cutoff_row \<notin> set (train_df CUTOFF_DATE [early_row, undated_row, cutoff_row])"
proof -
  have a: "cutoff_row \<in> set [early_row, undated_row, cutoff_row]" by simp
  have b: "GameDate cutoff_row = Some CUTOFF_DATE" by (simp add: cutoff_row_def)
  from a b C1_split_by_date [of cutoff_row CUTOFF_DATE "[early_row, undated_row, cutoff_row]"]
  show ?thesis by blast
qed

section \<open>The loop of the per-map baseline\<close>

lemma set_unique [simp]: "set (unique xs) = set xs"
  by (induction xs rule: unique.induct) auto

lemma distinct_unique [simp]: "distinct (unique xs)"
  by (induction xs rule: unique.induct) auto

lemma filter_eq_distinct:
  "distinct ks \<Longrightarrow> filter (\<lambda>m. m = k) ks = (if k \<in> set ks then [k] else [])"
  by (induction ks) auto

lemma set_map_filter_MapName: "set (List.map_filter MapName train) = {m. \<exists>r \<in> set train. MapName r = Some m}"
  by (induction train) (auto simp: List.map_filter_simps split: option.splits)

lemma lookup_map_win_rate:
  "filter (\<lambda>(m, w). cell_eq (Some m) (Some k)) (map_win_rate train) =
     (if \<exists>r \<in> set train. MapName r = Some k
      then [(k, series_mean (map CTWin (filter (\<lambda>r. MapName r = Some k) train)))] else [])"
proof -
  let ?ks = "sort (remdups (List.map_filter MapName train))"
  have d: "distinct ?ks" by simp
  have s: "set ?ks = {m. \<exists>r \<in> set train. MapName r = Some m}"
    by (simp add: set_map_filter_MapName)
  have "filter (\<lambda>(m, w). cell_eq (Some m) (Some k)) (map_win_rate train)
      = map (\<lambda>m. (m, series_mean (map CTWin (filter (\<lambda>r. MapName r = Some m) train))))
          (filter (\<lambda>m. m = k) ?ks)"
    by (simp add: map_win_rate_def filter_map o_def cell_eq_def)
  also have "filter (\<lambda>m. m = k) ?ks = (if k \<in> set ?ks then [k] else [])"
    using d by (rule filter_eq_distinct)
  finally show ?thesis unfolding s by auto
qed

lemma lookup_map_win_rate_None:
  "filter (\<lambda>(m, w). cell_eq (Some m) None) mwr = []"
  by (induction mwr) (auto simp: cell_eq_def)

lemma map_loop_result:
  "map_loop mwr test names acc =
     (if \<forall>n \<in> set names. filter (\<lambda>(m, w). cell_eq (Some m) n) mwr \<noteq> []
      then Inr (acc @ map (\<lambda>n. map (\<lambda>(r, p). (r, snd (hd (filter (\<lambda>(m, w). cell_eq (Some m) n) mwr))))
                              (filter (\<lambda>(r, p). cell_eq (MapName r) n) test)) names)
      else Inl IndexError)"
proof (induction names arbitrary: acc)
  case Nil
  show ?case by simp
next
  case (Cons n names)
  show ?case
  proof (cases "filter (\<lambda>(m, w). cell_eq (Some m) n) mwr")
    case Nil
    then show ?thesis by simp
  next
    case (Cons mw rest)
    obtain m w where mw: "mw = (m, w)" by (cases mw)
    show ?thesis
      using Cons mw Cons.IH by (simp add: Let_def)
  qed
qed


lemma sum_list_01_bounds:
  "\<forall>x \<in> set xs. x = 0 \<or> x = (1::int) \<Longrightarrow> 0 \<le> sum_list xs \<and> sum_list xs \<le> int (length xs)"
  by (induction xs) auto

lemma series_mean_01:
  assumes "xs \<noteq> []" "\<forall>x \<in> set xs. x = 0 \<or> x = 1"
  shows "\<exists>v. series_mean xs = Some v \<and> 0 \<le> v \<and> v \<le> 1"
proof -
  from sum_list_01_bounds [OF assms(2)]
  have b: "0 \<le> sum_list xs" "sum_list xs \<le> int (length xs)" by auto
  have l: "0 < real (length xs)" using assms(1) by simp
  have "0 \<le> real_of_int (sum_list xs) / real (length xs)"
    using b(1) by simp
  moreover have "real_of_int (sum_list xs) \<le> real (length xs)"
    using b(2) by linarith
  then have "real_of_int (sum_list xs) / real (length xs) \<le> 1"
    using l by simp
  ultimately show ?thesis using assms(1) by (simp add: series_mean_def)
qed

lemma pred_matrix_rows:
  "pred_matrix t = map (\<lambda>(r, p). [one_minus p, p]) t"
  by (induction t) (auto simp: pred_matrix_def column_stack_def)

lemma count_concat_groups:
  "distinct ns \<Longrightarrow>
   mset (concat (map (\<lambda>n. filter (\<lambda>x. f x = n) xs) ns)) = mset (filter (\<lambda>x. f x \<in> set ns) xs)"
proof (induction ns)
  case Nil
  show ?case by simp
next
  case (Cons n ns)
  then have IH: "mset (concat (map (\<lambda>n. filter (\<lambda>x. f x = n) xs) ns)) = mset (filter (\<lambda>x. f x \<in> set ns) xs)"
    and nn: "n \<notin> set ns" by auto
  have "mset (filter (\<lambda>x. f x = n) xs) + mset (filter (\<lambda>x. f x \<in> set ns) xs)
        = mset (filter (\<lambda>x. f x = n \<or> f x \<in> set ns) xs)"
    using nn by (induction xs) auto
  with IH show ?case by simp
qed

text \<open>The frame built by a successful loop.\<close>

lemma baseline_map_frame_Inr:
  assumes all: "\<forall>r \<in> set test. \<exists>m. MapName r = Some m \<and> (\<exists>t \<in> set train. MapName t = Some m)"
    and ne: "test \<noteq> []"
  shows "baseline_map_frame train test =
     Inr (concat (map (\<lambda>n. map (\<lambda>(r, p). (r, series_mean (map CTWin (filter (\<lambda>t. MapName t = n) train))))
                          (filter (\<lambda>(r, p). MapName r = n) (map (\<lambda>r. (r, Some (1 / 2 :: real))) test)))
                  (unique (map MapName test))))"
proof -
  let ?mwr = "map_win_rate train"
  let ?names = "unique (map MapName test)"
  have names: "\<forall>n \<in> set ?names. \<exists>m. n = Some m \<and> (\<exists>t \<in> set train. MapName t = Some m)"
    using all by auto
  have ok: "\<forall>n \<in> set ?names. filter (\<lambda>(m, w). cell_eq (Some m) n) ?mwr \<noteq> []"
  proof
    fix n assume "n \<in> set ?names"
    with names obtain m where "n = Some m" "\<exists>t \<in> set train. MapName t = Some m" by blast
    then show "filter (\<lambda>(m, w). cell_eq (Some m) n) ?mwr \<noteq> []"
      by (simp add: lookup_map_win_rate)
  qed
  let ?X = "map (\<lambda>n. map (\<lambda>(r, p). (r, snd (hd (filter (\<lambda>(m, w). cell_eq (Some m) n) ?mwr))))
                   (filter (\<lambda>(r, p). cell_eq (MapName r) n) (map (\<lambda>r. (r, Some (1 / 2 :: real))) test))) ?names"
  let ?Y = "map (\<lambda>n. map (\<lambda>(r, p). (r, series_mean (map CTWin (filter (\<lambda>t. MapName t = n) train))))
                   (filter (\<lambda>(r, p). MapName r = n) (map (\<lambda>r. (r, Some (1 / 2 :: real))) test))) ?names"
  have eq: "?X = ?Y"
  proof (rule map_cong [OF refl])
    fix n assume "n \<in> set ?names"
    with names obtain m where n: "n = Some m" and t: "\<exists>t \<in> set train. MapName t = Some m" by blast
    have c: "\<And>a. cell_eq a (Some m) \<longleftrightarrow> a = Some m" by (auto simp: cell_eq_def)
    show "map (\<lambda>(r, p). (r, snd (hd (filter (\<lambda>(m, w). cell_eq (Some m) n) ?mwr))))
            (filter (\<lambda>(r, p). cell_eq (MapName r) n) (map (\<lambda>r. (r, Some (1 / 2 :: real))) test))
        = map (\<lambda>(r, p). (r, series_mean (map CTWin (filter (\<lambda>t. MapName t = n) train))))
            (filter (\<lambda>(r, p). MapName r = n) (map (\<lambda>r. (r, Some (1 / 2 :: real))) test))"
      unfolding n lookup_map_win_rate using t by (simp add: c)
  qed
  have "map_loop ?mwr (map (\<lambda>r. (r, Some (1 / 2 :: real))) test) ?names [] = Inr ?X"
    unfolding map_loop_result by (subst if_P [OF ok]) simp
  then have ml: "map_loop ?mwr (map (\<lambda>r. (r, Some (1 / 2 :: real))) test) ?names [] = Inr ?Y"
    unfolding eq .
  have nne: "?Y \<noteq> []" using ne by (cases test) auto
  show ?thesis
    unfolding baseline_map_frame_def Let_def ml using nne by (simp add: pd_concat_def)
qed

lemma baseline_map_frame_rows:
  assumes all: "\<forall>r \<in> set test. \<exists>m. MapName r = Some m \<and> (\<exists>t \<in> set train. MapName t = Some m)"
    and ne: "test \<noteq> []"
  shows "\<exists>out. baseline_map_frame train test = Inr out
      \<and> mset (map fst out) = mset test
      \<and> (\<forall>(r, p) \<in> set out. r \<in> set test \<and> p = series_mean (map CTWin (filter (\<lambda>t. MapName t = MapName r) train)))"
proof -
  let ?out = "concat (map (\<lambda>n. map (\<lambda>(r, p). (r, series_mean (map CTWin (filter (\<lambda>t. MapName t = n) train))))
                          (filter (\<lambda>(r, p). MapName r = n) (map (\<lambda>r. (r, Some (1 / 2 :: real))) test)))
                  (unique (map MapName test)))"
  have fr: "baseline_map_frame train test = Inr ?out"
    by (rule baseline_map_frame_Inr [OF all ne])
  have "map fst ?out = concat (map (\<lambda>n. filter (\<lambda>r. MapName r = n) test) (unique (map MapName test)))"
    by (simp add: map_concat o_def filter_map split_def)
  then have "mset (map fst ?out) = mset (filter (\<lambda>r. MapName r \<in> set (unique (map MapName test))) test)"
    by (simp add: count_concat_groups)
  also have "\<dots> = mset test"
    by (simp cong: filter_cong)
  finally have ms: "mset (map fst ?out) = mset test" .
  have pr: "\<forall>(r, p) \<in> set ?out. r \<in> set test \<and> p = series_mean (map CTWin (filter (\<lambda>t. MapName t = MapName r) train))"
    by auto
  from fr ms pr show ?thesis by blast
qed

lemma baseline_map_frame_Inl:
  assumes r: "r \<in> set test"
    and un: "MapName r = None \<or> (\<forall>t \<in> set train. MapName t \<noteq> MapName r)"
  shows "baseline_map_frame train test = Inl IndexError"
proof -
  have "filter (\<lambda>(m, w). cell_eq (Some m) (MapName r)) (map_win_rate train) = []"
  proof (cases "MapName r")
    case None
    then show ?thesis by (simp add: lookup_map_win_rate_None)
  next
    case (Some k)
    with un have "\<not> (\<exists>t \<in> set train. MapName t = Some k)" by auto
    with Some show ?thesis by (simp add: lookup_map_win_rate)
  qed
  moreover have "MapName r \<in> set (unique (map MapName test))" using r by simp
  ultimately have "\<not> (\<forall>n \<in> set (unique (map MapName test)).
      filter (\<lambda>(m, w). cell_eq (Some m) n) (map_win_rate train) \<noteq> [])" by blast
  then have "map_loop (map_win_rate train) (map (\<lambda>r. (r, Some (1 / 2 :: real))) test)
      (unique (map MapName test)) [] = Inl IndexError"
    unfolding map_loop_result by (rule if_not_P)
  then show ?thesis
    by (simp add: baseline_map_frame_def)
qed

lemma baseline_map_frame_Inr_iff:
  "baseline_map_frame train test = Inr out \<Longrightarrow>
     test \<noteq> [] \<and> (\<forall>r \<in> set test. \<exists>m. MapName r = Some m \<and> (\<exists>t \<in> set train. MapName t = Some m))"
proof (intro conjI ballI)
  assume a: "baseline_map_frame train test = Inr out"
  show "test \<noteq> []"
  proof
    assume "test = []"
    with a show False by (simp add: baseline_map_frame_def pd_concat_def)
  qed
  fix r assume r: "r \<in> set test"
  show "\<exists>m. MapName r = Some m \<and> (\<exists>t \<in> set train. MapName t = Some m)"
  proof (rule ccontr)
    assume n: "\<not> ?thesis"
    have "MapName r = None \<or> (\<forall>t \<in> set train. MapName t \<noteq> MapName r)"
    proof (cases "MapName r")
      case None then show ?thesis by simp
    next
      case (Some k)
      with n show ?thesis by auto
    qed
    from baseline_map_frame_Inl [OF r this] a show False by simp
  qed
qed

section \<open>Claims about the baselines\<close>

text \<open>
  C4: with a non-empty training set the frequency baseline gives every test row one and
  the same prediction, the arithmetic mean of the labels of all training rows; the value
  does not depend on the test row.
\<close>

theorem C4_frequency_baseline_is_training_mean:
  "train \<noteq> [] \<Longrightarrow>
   BaselinePred train test =
     map (\<lambda>r. (r, Some (real_of_int (sum_list (map CTWin train)) / real (length train)))) test"
  by (simp add: BaselinePred_def series_mean_def)

theorem C4_frequency_baseline_witness:
  "[early_row, late_row, undated_row] \<noteq> []
   \<and> BaselinePred [early_row, late_row, undated_row] [cutoff_row, late_row]
       = [(cutoff_row, Some (2 / 3)), (late_row, Some (2 / 3))]"
proof -
  have h: "[early_row, late_row, undated_row] \<noteq> []" by simp
  from C4_frequency_baseline_is_training_mean [OF h, of "[cutoff_row, late_row]"]
  show ?thesis by (simp add: example_rows)
qed


text \<open>
  C2, as stated, promises the map mean to every test row whose map occurs in training,
  whatever else the test set holds. Here the first test row's map occurs in training, the
  second row's map does not: the call raises IndexError and predicts nothing.
\<close>

theorem C2_unseen_map_elsewhere_fails:
  "MapName early_row = Some ''de_dust2''
   \<and> baseline_map_frame [early_row] [early_row, cutoff_row] = Inl IndexError
   \<and> baseline_map [early_row] [early_row, cutoff_row] = ([], Some IndexError)"
  by (simp add: baseline_map_def baseline_map_frame_def map_win_rate_def List.map_filter_simps
      cell_eq_def example_rows)


text \<open>
  C2, amended: when the map name of every test row occurs in at least one training row,
  the per-map baseline returns a frame holding exactly the test rows, and the prediction
  of every row is the arithmetic mean of the labels of the training rows with the same
  map name.
\<close>

theorem C2_map_baseline_predicts_map_mean:
  assumes all: "\<forall>r \<in> set test. MapName r \<noteq> None \<and> (\<exists>t \<in> set train. MapName t = MapName r)"
    and r: "r \<in> set test"
  shows "\<exists>out. baseline_map_frame train test = Inr out
     \<and> mset (map fst out) = mset test
     \<and> (\<forall>(r', p) \<in> set out. p = Some (real_of_int (sum_list (map CTWin (filter (\<lambda>t. MapName t = MapName r') train)))
                                     / real (length (filter (\<lambda>t. MapName t = MapName r') train))))"
proof -
  have all': "\<forall>r \<in> set test. \<exists>m. MapName r = Some m \<and> (\<exists>t \<in> set train. MapName t = Some m)"
    using all by fastforce
  have ne: "test \<noteq> []" using r by auto
  from baseline_map_frame_rows [OF all' ne] obtain out where
    fr: "baseline_map_frame train test = Inr out" and ms: "mset (map fst out) = mset test"
    and pr: "\<forall>(r, p) \<in> set out. r \<in> set test \<and> p = series_mean (map CTWin (filter (\<lambda>t. MapName t = MapName r) train))"
    by blast
  have "\<forall>(r', p) \<in> set out. p = Some (real_of_int (sum_list (map CTWin (filter (\<lambda>t. MapName t = MapName r') train)))
                                     / real (length (filter (\<lambda>t. MapName t = MapName r') train)))"
  proof (clarify)
    fix r' p assume m: "(r', p) \<in> set out"
    with pr have r': "r' \<in> set test" and p: "p = series_mean (map CTWin (filter (\<lambda>t. MapName t = MapName r') train))"
      by auto
    from all r' have "\<exists>t \<in> set train. MapName t = MapName r'" by blast
    then have "filter (\<lambda>t. MapName t = MapName r') train \<noteq> []"
      by (auto simp: filter_empty_conv)
    then show "p = Some (real_of_int (sum_list (map CTWin (filter (\<lambda>t. MapName t = MapName r') train)))
                                     / real (length (filter (\<lambda>t. MapName t = MapName r') train)))"
      unfolding p by (simp add: series_mean_def)
  qed
  with fr ms show ?thesis by blast
qed

theorem C2_map_baseline_witness:
  "baseline_map_frame [early_row, late_row, undated_row] [cutoff_row, late_row, undated_row]
     = Inr [(cutoff_row, Some 1), (undated_row, Some 1), (late_row, Some (1 / 2))]"
proof -
  let ?train = "[early_row, late_row, undated_row]"
  let ?test = "[cutoff_row, late_row, undated_row]"
  have h1: "\<forall>r \<in> set ?test. MapName r \<noteq> None \<and> (\<exists>t \<in> set ?train. MapName t = MapName r)"
    by (simp add: example_rows)
  have h2: "late_row \<in> set ?test" by simp
  from C2_map_baseline_predicts_map_mean [OF h1 h2] obtain out where
    "baseline_map_frame ?train ?test = Inr out" by blast
  moreover have "baseline_map_frame ?train ?test
     = Inr [(cutoff_row, Some 1), (undated_row, Some 1), (late_row, Some (1 / 2))]"
    by (simp add: baseline_map_frame_def map_win_rate_def List.map_filter_simps
      cell_eq_def example_rows series_mean_def pd_concat_def)
  ultimately show ?thesis by simp
qed


text \<open>
  C3: a test set with a row whose map name occurs in no training row makes
  \<^verbatim>\<open>baseline_map\<close> fail with IndexError at \<^verbatim>\<open>.values[0]\<close>. The call then builds no
  frame and prints nothing, so the value 0.5 stored before the loop is no row's
  prediction.
\<close>

theorem C3_unseen_map_raises_IndexError:
  assumes r: "r \<in> set test" and un: "\<forall>t \<in> set train. MapName t \<noteq> MapName r"
  shows "baseline_map_frame train test = Inl IndexError
     \<and> baseline_map train test = ([], Some IndexError)"
proof -
  from un have "MapName r = None \<or> (\<forall>t \<in> set train. MapName t \<noteq> MapName r)" by simp
  from baseline_map_frame_Inl [OF r this]
  show ?thesis by (simp add: baseline_map_def)
qed

theorem C3_unseen_map_witness:
  "cutoff_row \<in> set [late_row, cutoff_row]
   \<and> baseline_map_frame [early_row, late_row] [late_row, cutoff_row] = Inl IndexError
   \<and> baseline_map [early_row, late_row] [late_row, cutoff_row] = ([], Some IndexError)"
proof -
  have h1: "cutoff_row \<in> set [late_row, cutoff_row]" by simp
  have h2: "\<forall>t \<in> set [early_row, late_row]. MapName t \<noteq> MapName cutoff_row"
    by (simp add: example_rows)
  from h1 C3_unseen_map_raises_IndexError [OF h1 h2] show ?thesis by simp
qed


text \<open>
  C9: with a non-empty training set whose labels are all 0 or 1, every prediction of the
  frequency baseline, and every prediction of the per-map baseline whenever it produces
  its frame (that is, when every test map occurs in training), lies in \<open>[0, 1]\<close>; and
  the two entries of every row of the matrix passed to \<^verbatim>\<open>print_results\<close> sum to 1.
\<close>

theorem C9_baseline_predictions_are_probabilities:
  assumes ne: "train \<noteq> []" and bin: "\<forall>t \<in> set train. CTWin t = 0 \<or> CTWin t = 1"
  shows "(\<forall>(r, p) \<in> set (BaselinePred train test). \<exists>x. p = Some x \<and> 0 \<le> x \<and> x \<le> 1)
     \<and> (\<forall>row \<in> set (pred_matrix (BaselinePred train test)). \<exists>a b. row = [Some a, Some b] \<and> a + b = 1)
     \<and> (\<forall>out. baseline_map_frame train test = Inr out \<longrightarrow>
           (\<forall>(r, p) \<in> set out. \<exists>x. p = Some x \<and> 0 \<le> x \<and> x \<le> 1)
         \<and> (\<forall>row \<in> set (pred_matrix out). \<exists>a b. row = [Some a, Some b] \<and> a + b = 1))"
proof -
  have rows: "\<forall>row \<in> set (pred_matrix t). \<exists>a b. row = [Some a, Some b] \<and> a + b = (1::real)"
    if t: "\<forall>(r, p) \<in> set t. \<exists>x. p = Some x \<and> 0 \<le> x \<and> x \<le> 1" for t :: "('c row_scheme \<times> float) list"
  proof
    fix row assume "row \<in> set (pred_matrix t)"
    then obtain r p where rp: "(r, p) \<in> set t" and row: "row = [one_minus p, p]"
      by (auto simp: pred_matrix_rows)
    from t rp obtain x where "p = Some x" by blast
    then have "row = [Some (1 - x), Some x] \<and> (1 - x) + x = 1"
      using row by (simp add: one_minus_def)
    then show "\<exists>a b. row = [Some a, Some b] \<and> a + b = 1" by blast
  qed
  have "map CTWin train \<noteq> []" "\<forall>x \<in> set (map CTWin train). x = 0 \<or> x = 1"
    using ne bin by auto
  from series_mean_01 [OF this] obtain v where
    v: "series_mean (map CTWin train) = Some v" "0 \<le> v" "v \<le> 1" by blast
  have f: "\<forall>(r, p) \<in> set (BaselinePred train test). \<exists>x. p = Some x \<and> 0 \<le> x \<and> x \<le> 1"
    using v by (auto simp: BaselinePred_def)
  have m: "\<forall>(r, p) \<in> set out. \<exists>x. p = Some x \<and> 0 \<le> x \<and> x \<le> 1"
    if fr: "baseline_map_frame train test = Inr out" for out
  proof -
    from baseline_map_frame_Inr_iff [OF fr]
    have tne: "test \<noteq> []"
      and all: "\<forall>r \<in> set test. \<exists>m. MapName r = Some m \<and> (\<exists>t \<in> set train. MapName t = Some m)"
      by auto
    from baseline_map_frame_rows [OF all tne] fr
    have pr: "\<forall>(r, p) \<in> set out. r \<in> set test \<and> p = series_mean (map CTWin (filter (\<lambda>t. MapName t = MapName r) train))"
      by auto
    show ?thesis
    proof (clarify)
      fix r p assume "(r, p) \<in> set out"
      with pr have r: "r \<in> set test" and p: "p = series_mean (map CTWin (filter (\<lambda>t. MapName t = MapName r) train))"
        by auto
      from all r obtain k t where "MapName r = Some k" "t \<in> set train" "MapName t = Some k" by blast
      then have "filter (\<lambda>t. MapName t = MapName r) train \<noteq> []"
        by (auto simp: filter_empty_conv)
      then have "map CTWin (filter (\<lambda>t. MapName t = MapName r) train) \<noteq> []" by simp
      moreover have "\<forall>x \<in> set (map CTWin (filter (\<lambda>t. MapName t = MapName r) train)). x = 0 \<or> x = 1"
        using bin by auto
      ultimately show "\<exists>x. p = Some x \<and> 0 \<le> x \<and> x \<le> 1"
        unfolding p by (rule series_mean_01)
    qed
  qed
  show ?thesis
  proof (intro conjI allI impI)
    show "\<forall>(r, p) \<in> set (BaselinePred train test). \<exists>x. p = Some x \<and> 0 \<le> x \<and> x \<le> 1"
      by (rule f)
    show "\<forall>row \<in> set (pred_matrix (BaselinePred train test)). \<exists>a b. row = [Some a, Some b] \<and> a + b = 1"
      by (rule rows [OF f])
  next
    fix out assume fr: "baseline_map_frame train test = Inr out"
    show "\<forall>(r, p) \<in> set out. \<exists>x. p = Some x \<and> 0 \<le> x \<and> x \<le> 1"
      by (rule m [OF fr])
    show "\<forall>row \<in> set (pred_matrix out). \<exists>a b. row = [Some a, Some b] \<and> a + b = 1"
      by (rule rows [OF m [OF fr]])
  qed
qed

theorem C9_baseline_probabilities_witness:
  "pred_matrix (BaselinePred [early_row, late_row, undated_row] [cutoff_row])
     = [[Some (1 / 3), Some (2 / 3)]]
   \<and> (\<exists>a b. [Some (1 / 3), Some (2 / 3)] = [Some a, Some b] \<and> a + b = (1::real))
   \<and> baseline_map_frame [early_row, late_row, undated_row] [cutoff_row] = Inr [(cutoff_row, Some 1)]
   \<and> (\<exists>x. Some (1::real) = Some x \<and> 0 \<le> x \<and> x \<le> 1)"
proof -
  let ?train = "[early_row, late_row, undated_row]"
  have h1: "?train \<noteq> []" by simp
  have h2: "\<forall>t \<in> set ?train. CTWin t = 0 \<or> CTWin t = 1" by (simp add: example_rows)
  have e: "pred_matrix (BaselinePred ?train [cutoff_row]) = [[Some (1 / 3), Some (2 / 3)]]"
    by (simp add: pred_matrix_def BaselinePred_def series_mean_def column_stack_def one_minus_def
        example_rows)
  have fr: "baseline_map_frame ?train [cutoff_row] = Inr [(cutoff_row, Some 1)]"
    by (simp add: baseline_map_frame_def map_win_rate_def List.map_filter_simps
        cell_eq_def example_rows series_mean_def pd_concat_def)
  note T = C9_baseline_predictions_are_probabilities [OF h1 h2, of "[cutoff_row]"]
  note A = T [THEN conjunct2, THEN conjunct1]
  note B = T [THEN conjunct2, THEN conjunct2, rule_format, OF fr, THEN conjunct1]
  from A have w1: "\<exists>a b. [Some (1 / 3), Some (2 / 3)] = [Some a, Some b] \<and> a + b = (1::real)"
    unfolding e by simp
  from B have w2: "\<exists>x. Some (1::real) = Some x \<and> 0 \<le> x \<and> x \<le> 1" by simp
  from e w1 fr w2 show ?thesis by (intro conjI)
qed

section \<open>The metrics and the report\<close>

lemma pair_score_const:
  "\<forall>x \<in> set xs. x = v \<Longrightarrow> sum_list (map (\<lambda>n. pair_score v n) xs) = real (length xs) / 2"
  by (induction xs) (auto simp: pair_score_def)

lemma sum_list_const:
  "\<forall>x \<in> set xs. f x = (c::real) \<Longrightarrow> sum_list (map f xs) = real (length xs) * c"
  by (induction xs) (auto simp: algebra_simps)

lemma classes_binary:
  assumes "set y = {0, 1}"
  shows "length (classes y) = 2"
proof -
  have "length (classes y) = card (set y)"
    by (simp add: classes_def length_remdups_card_conv)
  with assms show ?thesis by simp
qed

lemma Max_binary: "set y = {0, 1::int} \<Longrightarrow> Max (set y) = 1"
  by simp

lemma roc_auc_score_constant:
  assumes len: "length s = length y" and y: "set y = {0, 1}"
    and s: "\<forall>p \<in> set s. p = Some v"
  shows "roc_auc_score y s = Inr (Some (1 / 2))"
proof -
  let ?pos = "map (\<lambda>(l, p). the p) (filter (\<lambda>(l, p). l = Max (set y)) (zip y s))"
  let ?neg = "map (\<lambda>(l, p). the p) (filter (\<lambda>(l, p). l \<noteq> Max (set y)) (zip y s))"
  have yne: "y \<noteq> []" using y by auto
  have nonan: "\<not> has_nan s" using s by (auto simp: has_nan_def)
  have zs: "\<forall>(l, p) \<in> set (zip y s). p = Some v"
    using s by (auto dest: set_zip_rightD)
  have posv: "\<forall>x \<in> set ?pos. x = v" using zs by auto
  have negv: "\<forall>x \<in> set ?neg. x = v" using zs by auto
  have fsty: "map fst (zip y s) = y" using len by simp
  have "1 \<in> set y" "0 \<in> set y" using y by auto
  then have "1 \<in> fst ` set (zip y s)" "0 \<in> fst ` set (zip y s)"
    using fsty by (metis set_map)+
  then obtain p1 p0 where m: "(1, p1) \<in> set (zip y s)" "(0, p0) \<in> set (zip y s)" by force
  have "filter (\<lambda>(l, p). l = Max (set y)) (zip y s) \<noteq> []"
    unfolding Max_binary [OF y] filter_empty_conv using m(1) by blast
  moreover have "filter (\<lambda>(l, p). l \<noteq> Max (set y)) (zip y s) \<noteq> []"
    unfolding Max_binary [OF y] filter_empty_conv using m(2) by fastforce
  ultimately have "filter (\<lambda>(l, p). l = Max (set y)) (zip y s) \<noteq> []"
            "filter (\<lambda>(l, p). l \<noteq> Max (set y)) (zip y s) \<noteq> []" by auto
  then have lp: "0 < length ?pos" and ln: "0 < length ?neg" by auto
  have inner: "\<forall>p \<in> set ?pos. sum_list (map (\<lambda>n. pair_score p n) ?neg) = real (length ?neg) / 2"
    using posv pair_score_const [OF negv] by auto
  have "sum_list (map (\<lambda>p. sum_list (map (\<lambda>n. pair_score p n) ?neg)) ?pos)
        = real (length ?pos) * (real (length ?neg) / 2)"
    by (rule sum_list_const [OF inner])
  then have val: "sum_list (map (\<lambda>p. sum_list (map (\<lambda>n. pair_score p n) ?neg)) ?pos)
        / (real (length ?pos) * real (length ?neg)) = 1 / 2"
    using lp ln by simp
  have "roc_auc_score y s = Inr (Some (sum_list (map (\<lambda>p. sum_list (map (\<lambda>n. pair_score p n) ?neg)) ?pos)
        / (real (length ?pos) * real (length ?neg))))"
    unfolding roc_auc_score_def Let_def
    using len yne nonan classes_binary [OF y] by simp
  then show ?thesis unfolding val .
qed


lemma classes_ge2: "y \<noteq> [] \<Longrightarrow> length (classes y) \<noteq> 1 \<Longrightarrow> 2 \<le> length (classes y)"
proof -
  assume a: "y \<noteq> []" "length (classes y) \<noteq> 1"
  have "length (classes y) = card (set y)"
    by (simp add: classes_def length_remdups_card_conv)
  moreover have "card (set y) \<noteq> 0" using a(1) by simp
  ultimately show ?thesis using a(2) by linarith
qed

lemma log_loss_Inr_D:
  assumes "log_loss y P = Inr ll"
  shows "length P = length y \<and> y \<noteq> [] \<and> (\<forall>r \<in> set P. \<not> has_nan r \<and> 2 \<le> length r)"
proof -
  from assms have a: "length y = length P" "y \<noteq> []" "\<forall>r \<in> set P. \<not> has_nan r"
    "length (classes y) \<noteq> 1" "\<forall>r \<in> set P. length r = length (classes y)"
    by (auto simp: log_loss_def split: if_splits)
  from classes_ge2 [OF a(2) a(4)] a show ?thesis by auto
qed

lemma print_results_all_ok:
  assumes ll: "log_loss y P = Inr ll"
    and bs: "brier_score_loss y (map (\<lambda>r. r ! 1) P) = Inr bs"
    and auc: "roc_auc_score y (map (\<lambda>r. r ! 1) P) = Inr auc"
    and acc: "accuracy_score y (map (\<lambda>r. 1 / 2 \<le> the (r ! 1)) P) = Inr acc"
  shows "print_results y P =
     ([Text ''---------- LOG LOSS'', Value ll, Text ''---------- BRIER SCORE'', Value bs,
       Text ''---------- AUC'', Value auc, Text ''---------- ACCURACY'', Value acc], None)"
proof -
  from log_loss_Inr_D [OF ll] have rows: "\<forall>r \<in> set P. \<not> has_nan r \<and> 2 \<le> length r" by simp
  then have col: "column 1 P = Inr (map (\<lambda>r. r ! 1) P)"
    by (auto simp: column_def)
  have "\<forall>r \<in> set P. ge_half (r ! 1) = (1 / 2 \<le> the (r ! 1))"
  proof
    fix r assume "r \<in> set P"
    with rows have "\<not> has_nan r" "1 < length r" by auto
    then have "r ! 1 \<noteq> None" unfolding has_nan_def by (metis nth_mem)
    then show "ge_half (r ! 1) = (1 / 2 \<le> the (r ! 1))" by (auto simp: ge_half_def)
  qed
  then have th: "map ge_half (map (\<lambda>r. r ! 1) P) = map (\<lambda>r. 1 / 2 \<le> the (r ! 1)) P"
    by simp
  have acc': "accuracy_score y (map ge_half (map (\<lambda>r. r ! 1) P)) = Inr acc"
    unfolding th by (rule acc)
  show ?thesis
    using ll col bs auc acc' by (simp add: print_results_def)
qed

text \<open>
  C8, as stated, holds for every label vector and every two-column matrix. With labels of
  a single class \<^verbatim>\<open>log_loss\<close> raises ValueError, and \<^verbatim>\<open>print_results\<close> stops after
  its first header: no metric is reported.
\<close>

theorem C8_single_class_stops_print_results:
  "print_results [1] [[Some (1 / 2), Some (1 / 2)]]
     = ([Text ''---------- LOG LOSS''], Some ValueError)"
  by (simp add: print_results_def log_loss_def classes_def has_nan_def)

text \<open>
  C8, amended: whenever the four metric calls accept the input, \<^verbatim>\<open>print_results\<close>
  prints exactly four metrics, each after its header, in the order log loss, Brier score,
  ROC AUC, accuracy. The Brier score and the AUC are computed from the second column of
  the matrix, and the accuracy from the predictions that are positive exactly where the
  second column is at least 0.5.
\<close>

theorem C8_print_results_four_metrics_in_order:
  assumes "log_loss y P = Inr ll"
    and "brier_score_loss y (map (\<lambda>r. r ! 1) P) = Inr bs"
    and "roc_auc_score y (map (\<lambda>r. r ! 1) P) = Inr auc"
    and "accuracy_score y (map (\<lambda>r. 1 / 2 \<le> the (r ! 1)) P) = Inr acc"
  shows "print_results y P =
     ([Text ''---------- LOG LOSS'', Value ll, Text ''---------- BRIER SCORE'', Value bs,
       Text ''---------- AUC'', Value auc, Text ''---------- ACCURACY'', Value acc], None)"
  using assms by (rule print_results_all_ok)

theorem C8_print_results_witness:
  "\<exists>ll. print_results [0, 1] [[Some (3 / 4), Some (1 / 4)], [Some (1 / 4), Some (3 / 4)]] =
     ([Text ''---------- LOG LOSS'', Value ll, Text ''---------- BRIER SCORE'', Value (Some (1 / 16)),
       Text ''---------- AUC'', Value (Some 1), Text ''---------- ACCURACY'', Value (Some 1)], None)"
proof -
  let ?y = "[0, 1 :: int]"
  let ?P = "[[Some (3 / 4), Some (1 / 4 :: real)], [Some (1 / 4), Some (3 / 4)]]"
  obtain ll where h1: "log_loss ?y ?P = Inr ll"
    by (simp add: log_loss_def classes_def has_nan_def)
  have h2: "brier_score_loss ?y (map (\<lambda>r. r ! 1) ?P) = Inr (Some (1 / 16))"
    by (simp add: brier_score_loss_def brier_target_def classes_def has_nan_def power2_eq_square)
  have h3: "roc_auc_score ?y (map (\<lambda>r. r ! 1) ?P) = Inr (Some 1)"
    by (simp add: roc_auc_score_def classes_def has_nan_def pair_score_def)
  have h4: "accuracy_score ?y (map (\<lambda>r. 1 / 2 \<le> the (r ! 1)) ?P) = Inr (Some 1)"
    by (simp add: accuracy_score_def)
  from C8_print_results_four_metrics_in_order [OF h1 h2 h3 h4] show ?thesis by blast
qed

lemma log_loss_ok:
  assumes "length P = length y" "set y = {0, 1}" "\<forall>r \<in> set P. \<exists>a b. r = [Some a, Some b]"
  shows "\<exists>ll. log_loss y P = Inr ll"
proof -
  have "y \<noteq> []" using assms(2) by auto
  moreover have "\<forall>r \<in> set P. \<not> has_nan r \<and> length r = 2"
    using assms(3) by (fastforce simp: has_nan_def)
  ultimately show ?thesis
    using assms(1) classes_binary [OF assms(2)] by (simp add: log_loss_def)
qed

lemma brier_score_loss_ok:
  assumes "length s = length y" "y \<noteq> []" "\<forall>p \<in> set s. \<exists>x. p = Some x \<and> 0 \<le> x \<and> x \<le> 1"
  shows "\<exists>bs. brier_score_loss y s = Inr bs"
proof -
  have "\<not> has_nan s" using assms(3) by (auto simp: has_nan_def)
  moreover have "\<not> (\<exists>p \<in> set s. the p > 1 \<or> the p < 0)" using assms(3) by fastforce
  ultimately show ?thesis using assms(1,2) by (simp add: brier_score_loss_def)
qed

lemma accuracy_score_ok: "length b = length y \<Longrightarrow> \<exists>acc. accuracy_score y b = Inr acc"
  by (simp add: accuracy_score_def)

lemma labels_binary:
  assumes "\<forall>r \<in> set test. CTWin r = 0 \<or> CTWin r = 1" "\<exists>r \<in> set test. CTWin r = 1"
    "\<exists>r \<in> set test. CTWin r = 0"
  shows "set (map CTWin test) = {0, 1}"
  using assms by force

text \<open>
  C10, as stated, asks only for a test set with a row of each label. With an empty
  training set the mean of the labels is \<^verbatim>\<open>NaN\<close>, the first metric rejects the matrix,
  and no AUC is reported.
\<close>

theorem C10_empty_training_set_reports_no_auc:
  "CTWin late_row = 0 \<and> CTWin early_row = 1
   \<and> baseline ([] :: row list) [late_row, early_row]
       = ([Text ''---------- LOG LOSS''], Some ValueError)"
  by (simp add: baseline_def BaselinePred_def pred_matrix_def column_stack_def one_minus_def
      series_mean_def print_results_def log_loss_def has_nan_def example_rows)

text \<open>
  C10, amended: for every non-empty training set with labels 0 or 1, and every test set
  with labels 0 or 1 that has at least one row of each, the predictions of the frequency
  baseline are all equal, the ROC AUC of these predictions is exactly 0.5, and this is the
  AUC that the baseline cell reports.
\<close>

theorem C10_frequency_baseline_auc_is_half:
  assumes ne: "train \<noteq> []" and tb: "\<forall>t \<in> set train. CTWin t = 0 \<or> CTWin t = 1"
    and yb: "\<forall>r \<in> set test. CTWin r = 0 \<or> CTWin r = 1"
    and one: "\<exists>r \<in> set test. CTWin r = 1" and zero: "\<exists>r \<in> set test. CTWin r = 0"
  shows "\<exists>v ll bs acc. BaselinePred train test = map (\<lambda>r. (r, Some v)) test
     \<and> roc_auc_score (map CTWin test) (map (\<lambda>r. Some v) test) = Inr (Some (1 / 2))
     \<and> baseline train test =
        ([Text ''---------- LOG LOSS'', Value ll, Text ''---------- BRIER SCORE'', Value bs,
          Text ''---------- AUC'', Value (Some (1 / 2)), Text ''---------- ACCURACY'', Value acc], None)"
proof -
  have "map CTWin train \<noteq> []" "\<forall>x \<in> set (map CTWin train). x = 0 \<or> x = 1"
    using ne tb by auto
  from series_mean_01 [OF this] obtain v where
    v: "series_mean (map CTWin train) = Some v" "0 \<le> v" "v \<le> 1" by blast
  let ?y = "map CTWin test"
  let ?P = "map (\<lambda>r. [Some (1 - v), Some v]) test"
  have bp: "BaselinePred train test = map (\<lambda>r. (r, Some v)) test"
    by (simp add: BaselinePred_def v(1))
  have y: "set ?y = {0, 1}" by (rule labels_binary [OF yb one zero])
  then have yne: "?y \<noteq> []" by auto
  have P: "pred_matrix (BaselinePred train test) = ?P"
    by (simp add: bp pred_matrix_rows one_minus_def o_def)
  have Y: "map (\<lambda>(r, p). CTWin r) (BaselinePred train test) = ?y"
    by (simp add: bp o_def)
  have c1: "map (\<lambda>r. r ! 1) ?P = map (\<lambda>r. Some v) test" by simp
  obtain ll where ll: "log_loss ?y ?P = Inr ll"
    using log_loss_ok [of ?P ?y] y by auto
  obtain bs where bs: "brier_score_loss ?y (map (\<lambda>r. r ! 1) ?P) = Inr bs"
    unfolding c1 using brier_score_loss_ok [of "map (\<lambda>r. Some v) test" ?y] yne v by auto
  have auc: "roc_auc_score ?y (map (\<lambda>r. Some v) test) = Inr (Some (1 / 2))"
    by (rule roc_auc_score_constant [OF _ y]) auto
  then have auc': "roc_auc_score ?y (map (\<lambda>r. r ! 1) ?P) = Inr (Some (1 / 2))"
    unfolding c1 .
  obtain acc where acc: "accuracy_score ?y (map (\<lambda>r. 1 / 2 \<le> the (r ! 1)) ?P) = Inr acc"
    using accuracy_score_ok [of "map (\<lambda>r. 1 / 2 \<le> the (r ! 1)) ?P" ?y] by auto
  have "baseline train test = print_results ?y ?P"
    by (simp add: baseline_def Let_def P Y)
  with print_results_all_ok [OF ll bs auc' acc] bp auc show ?thesis by auto
qed

theorem C10_frequency_baseline_auc_witness:
  "\<exists>ll bs acc. baseline [early_row, late_row] [cutoff_row, undated_row] =
        ([Text ''---------- LOG LOSS'', Value ll, Text ''---------- BRIER SCORE'', Value bs,
          Text ''---------- AUC'', Value (Some (1 / 2)), Text ''---------- ACCURACY'', Value acc], None)"
proof -
  have h1: "[early_row, late_row] \<noteq> []" by simp
  have h2: "\<forall>t \<in> set [early_row, late_row]. CTWin t = 0 \<or> CTWin t = 1" by (simp add: example_rows)
  have h3: "\<forall>r \<in> set [cutoff_row, undated_row]. CTWin r = 0 \<or> CTWin r = 1" by (simp add: example_rows)
  have h4: "\<exists>r \<in> set [cutoff_row, undated_row]. CTWin r = 1" by (simp add: example_rows)
  have h5: "\<exists>r \<in> set [cutoff_row, undated_row]. CTWin r = 0" by (simp add: example_rows)
  from C10_frequency_baseline_auc_is_half [OF h1 h2 h3 h4 h5] show ?thesis by blast
qed

section \<open>Properties of the one-hot encoding\<close>

lemma set_levels: "set (levels col) = {v. Some v \<in> set col}"
  by (induction col) (auto simp: levels_def List.map_filter_simps split: option.splits)

lemma distinct_levels: "distinct (levels col)"
  by (simp add: levels_def)

lemma inj_dummy_name: "inj (dummy_name prefix)"
  by (simp add: inj_def dummy_name_def)

lemma get_dummies_row:
  assumes i: "i < length col"
  shows "length (get_dummies prefix col) = length col"
    and "map fst (get_dummies prefix col ! i) = map (dummy_name prefix) (levels col)"
    and "Some v \<in> set col \<Longrightarrow>
         map_of (get_dummies prefix col ! i) (dummy_name prefix v) = Some (if col ! i = Some v then 1 else 0)"
    and "length (filter (\<lambda>(c, x). x = 1) (get_dummies prefix col ! i)) = (if col ! i = None then 0 else 1)"
proof -
  let ?d = "map (\<lambda>v. (dummy_name prefix v, if col ! i = Some v then 1 else (0::nat))) (levels col)"
  have d: "get_dummies prefix col ! i = ?d" using i by (simp add: get_dummies_def)
  show "length (get_dummies prefix col) = length col" by (simp add: get_dummies_def)
  show keys: "map fst (get_dummies prefix col ! i) = map (dummy_name prefix) (levels col)"
    unfolding d by (simp add: o_def)
  have dist: "distinct (map fst ?d)"
    using keys [unfolded d] distinct_levels [of col] inj_dummy_name [of prefix]
    by (simp add: distinct_map inj_on_def inj_def)
  show "map_of (get_dummies prefix col ! i) (dummy_name prefix v) = Some (if col ! i = Some v then 1 else 0)"
    if "Some v \<in> set col"
  proof -
    from that have "v \<in> set (levels col)" by (simp add: set_levels)
    then have "(dummy_name prefix v, if col ! i = Some v then 1 else (0::nat)) \<in> set ?d" by auto
    with dist show ?thesis unfolding d by (simp only: map_of_eq_Some_iff)
  qed
  have "filter (\<lambda>(c, x). x = 1) ?d
      = map (\<lambda>v. (dummy_name prefix v, if col ! i = Some v then 1 else (0::nat)))
          (filter (\<lambda>v. v = the (col ! i) \<and> col ! i \<noteq> None) (levels col))"
    by (auto simp: filter_map o_def intro!: arg_cong [where f = "map _"] filter_cong)
  also have "length \<dots> = length (filter (\<lambda>v. v = the (col ! i) \<and> col ! i \<noteq> None) (levels col))"
    by simp
  also have "\<dots> = (if col ! i = None then 0 else 1)"
  proof (cases "col ! i")
    case None
    then show ?thesis by simp
  next
    case (Some m)
    then have "Some m \<in> set col" using i by (metis nth_mem)
    then have "m \<in> set (levels col)" by (simp add: set_levels)
    with Some filter_eq_distinct [OF distinct_levels, of m col] show ?thesis by simp
  qed
  finally show "length (filter (\<lambda>(c, x). x = 1) (get_dummies prefix col ! i)) = (if col ! i = None then 0 else 1)"
    unfolding d .
qed

lemma preprocess_nth:
  assumes "i < length df"
  shows "preprocess df ! i = \<lparr>GameDate = GameDate (df ! i), MapName = MapName (df ! i),
           BombSite = BombSite (df ! i), CTWin = CTWin (df ! i), Features = Features (df ! i),
           MapName_dummies = get_dummies ''MapName'' (map MapName df) ! i\<rparr>"
  using assms
  by (simp add: preprocess_def set_MapName_def get_dummies_MapName_def
      get_dummies_row(1) Let_def)

lemma length_preprocess: "length (preprocess df) = length df"
  by (simp add: preprocess_def set_MapName_def get_dummies_MapName_def get_dummies_def)

lemma map_BombSite_preprocess: "map BombSite (preprocess df) = map BombSite df"
  by (rule nth_equalityI) (simp_all add: length_preprocess preprocess_nth)

lemma preprocess_revised_nth:
  assumes "i < length df"
  shows "preprocess_revised df ! i = \<lparr>GameDate = GameDate (df ! i), MapName = MapName (df ! i),
           BombSite = BombSite (df ! i), CTWin = CTWin (df ! i), Features = Features (df ! i),
           MapName_dummies = get_dummies ''MapName'' (map MapName df) ! i,
           BombSite_dummies = get_dummies ''BombSite'' (map BombSite df) ! i\<rparr>"
  using assms
  by (simp add: preprocess_revised_def set_BombSite_def get_dummies_BombSite_def Let_def
      get_dummies_row(1) length_preprocess map_BombSite_preprocess preprocess_nth)

lemma length_preprocess_revised: "length (preprocess_revised df) = length df"
  by (simp add: preprocess_revised_def set_BombSite_def get_dummies_BombSite_def
      get_dummies_def length_preprocess Let_def)


text \<open>
  C5, as stated, has exactly one map indicator equal to 1 in every row. A row whose
  \<open>MapName\<close> cell is empty gets 0 in every indicator column.
\<close>

theorem C5_missing_map_name_has_no_indicator:
  "MapName unmapped_row = None
   \<and> MapName_dummies (preprocess [early_row, unmapped_row] ! 1) = [(''MapName_de_dust2'', 0)]"
  by (simp add: preprocess_def set_MapName_def get_dummies_MapName_def get_dummies_def
      levels_def dummy_name_def List.map_filter_simps early_row_def unmapped_row_def)

text \<open>
  C5, amended: after the encoding there is one indicator column \<open>MapName_m\<close> for every map
  value \<open>m\<close> in the data, and in every row it is 1 exactly when the row's original
  \<open>MapName\<close> is \<open>m\<close>; so exactly one map indicator of a row is 1 when the row has a
  map name, and none is when the cell is missing. The \<open>MapName\<close> column is back at its
  original value and every other column is unchanged. In the revised notebook the same
  holds for \<open>BombSite\<close> and its indicator columns, and the map indicators are those of
  the first encoding.
\<close>

theorem C5_one_hot_encoding:
  assumes i: "i < length df"
  shows "length (preprocess df) = length df \<and> length (preprocess_revised df) = length df
   \<and> map fst (MapName_dummies (preprocess df ! i))
       = map (\<lambda>m. ''MapName_'' @ m) (levels (map MapName df))
   \<and> (\<forall>m. Some m \<in> set (map MapName df) \<longrightarrow>
         map_of (MapName_dummies (preprocess df ! i)) (''MapName_'' @ m)
           = Some (if MapName (df ! i) = Some m then 1 else 0))
   \<and> length (filter (\<lambda>(c, x). x = 1) (MapName_dummies (preprocess df ! i)))
       = (if MapName (df ! i) = None then 0 else 1)
   \<and> MapName (preprocess df ! i) = MapName (df ! i)
   \<and> GameDate (preprocess df ! i) = GameDate (df ! i)
   \<and> BombSite (preprocess df ! i) = BombSite (df ! i)
   \<and> CTWin (preprocess df ! i) = CTWin (df ! i)
   \<and> Features (preprocess df ! i) = Features (df ! i)
   \<and> MapName_dummies (preprocess_revised df ! i) = MapName_dummies (preprocess df ! i)
   \<and> map fst (BombSite_dummies (preprocess_revised df ! i))
       = map (\<lambda>b. ''BombSite_'' @ b) (levels (map BombSite df))
   \<and> (\<forall>b. Some b \<in> set (map BombSite df) \<longrightarrow>
         map_of (BombSite_dummies (preprocess_revised df ! i)) (''BombSite_'' @ b)
           = Some (if BombSite (df ! i) = Some b then 1 else 0))
   \<and> length (filter (\<lambda>(c, x). x = 1) (BombSite_dummies (preprocess_revised df ! i)))
       = (if BombSite (df ! i) = None then 0 else 1)
   \<and> MapName (preprocess_revised df ! i) = MapName (df ! i)
   \<and> BombSite (preprocess_revised df ! i) = BombSite (df ! i)
   \<and> GameDate (preprocess_revised df ! i) = GameDate (df ! i)
   \<and> CTWin (preprocess_revised df ! i) = CTWin (df ! i)
   \<and> Features (preprocess_revised df ! i) = Features (df ! i)"
proof -
  have dn: "\<And>p v. dummy_name p v = p @ ''_'' @ v" by (simp add: dummy_name_def)
  have im: "i < length (map MapName df)" and ib: "i < length (map BombSite df)"
    using i by simp_all
  note M = get_dummies_row [OF im, where prefix = "''MapName''"]
  note B = get_dummies_row [OF ib, where prefix = "''BombSite''"]
  have p: "MapName_dummies (preprocess df ! i) = get_dummies ''MapName'' (map MapName df) ! i"
    by (simp add: preprocess_nth [OF i])
  have q: "BombSite_dummies (preprocess_revised df ! i) = get_dummies ''BombSite'' (map BombSite df) ! i"
    by (simp add: preprocess_revised_nth [OF i])
  have m1: "map fst (MapName_dummies (preprocess df ! i)) = map (\<lambda>m. ''MapName_'' @ m) (levels (map MapName df))"
    unfolding p M(2) by (simp add: dn)
  have m2: "\<forall>m. Some m \<in> set (map MapName df) \<longrightarrow>
         map_of (MapName_dummies (preprocess df ! i)) (''MapName_'' @ m)
           = Some (if MapName (df ! i) = Some m then 1 else 0)"
    unfolding p using M(3) i by (simp add: dn)
  have m3: "length (filter (\<lambda>(c, x). x = 1) (MapName_dummies (preprocess df ! i)))
       = (if MapName (df ! i) = None then 0 else 1)"
    unfolding p M(4) using i by simp
  have b1: "map fst (BombSite_dummies (preprocess_revised df ! i))
       = map (\<lambda>b. ''BombSite_'' @ b) (levels (map BombSite df))"
    unfolding q B(2) by (simp add: dn)
  have b2: "\<forall>b. Some b \<in> set (map BombSite df) \<longrightarrow>
         map_of (BombSite_dummies (preprocess_revised df ! i)) (''BombSite_'' @ b)
           = Some (if BombSite (df ! i) = Some b then 1 else 0)"
    unfolding q using B(3) i by (simp add: dn)
  have b3: "length (filter (\<lambda>(c, x). x = 1) (BombSite_dummies (preprocess_revised df ! i)))
       = (if BombSite (df ! i) = None then 0 else 1)"
    unfolding q B(4) using i by simp
  show ?thesis
    using m1 m2 m3 b1 b2 b3
    by (simp add: length_preprocess length_preprocess_revised preprocess_nth [OF i]
        preprocess_revised_nth [OF i])
qed

theorem C5_one_hot_encoding_witness:
  "map_of (MapName_dummies (preprocess [early_row, unmapped_row, cutoff_row] ! 2)) ''MapName_de_nuke'' = Some 1
   \<and> map_of (MapName_dummies (preprocess [early_row, unmapped_row, cutoff_row] ! 2)) ''MapName_de_dust2'' = Some 0
   \<and> MapName (preprocess [early_row, unmapped_row, cutoff_row] ! 2) = Some ''de_nuke''
   \<and> map_of (BombSite_dummies (preprocess_revised [early_row, unmapped_row, cutoff_row] ! 2)) ''BombSite_A'' = Some 1
   \<and> BombSite (preprocess_revised [early_row, unmapped_row, cutoff_row] ! 2) = Some ''A''"
proof -
  let ?df = "[early_row, unmapped_row, cutoff_row]"
  have h: "2 < length ?df" by simp
  have a: "Some ''de_nuke'' \<in> set (map MapName ?df)" "Some ''de_dust2'' \<in> set (map MapName ?df)"
    "Some ''A'' \<in> set (map BombSite ?df)"
    by (simp_all add: example_rows unmapped_row_def)
  have v: "MapName (?df ! 2) = Some ''de_nuke''" "BombSite (?df ! 2) = Some ''A''"
    by (simp_all add: example_rows)
  note T = C5_one_hot_encoding [OF h]
  from T have m: "\<forall>m. Some m \<in> set (map MapName ?df) \<longrightarrow>
         map_of (MapName_dummies (preprocess ?df ! 2)) (''MapName_'' @ m)
           = Some (if MapName (?df ! 2) = Some m then 1 else 0)"
    by blast
  from T have b: "\<forall>b. Some b \<in> set (map BombSite ?df) \<longrightarrow>
         map_of (BombSite_dummies (preprocess_revised ?df ! 2)) (''BombSite_'' @ b)
           = Some (if BombSite (?df ! 2) = Some b then 1 else 0)"
    by blast
  from T have r: "MapName (preprocess ?df ! 2) = MapName (?df ! 2)"
    "BombSite (preprocess_revised ?df ! 2) = BombSite (?df ! 2)"
    by blast+
  from m a(1) have "map_of (MapName_dummies (preprocess ?df ! 2)) (''MapName_'' @ ''de_nuke'')
           = Some (if MapName (?df ! 2) = Some ''de_nuke'' then 1 else 0)" by blast
  then have w1: "map_of (MapName_dummies (preprocess ?df ! 2)) ''MapName_de_nuke'' = Some 1"
    unfolding v by simp
  from m a(2) have "map_of (MapName_dummies (preprocess ?df ! 2)) (''MapName_'' @ ''de_dust2'')
           = Some (if MapName (?df ! 2) = Some ''de_dust2'' then 1 else 0)" by blast
  then have w2: "map_of (MapName_dummies (preprocess ?df ! 2)) ''MapName_de_dust2'' = Some 0"
    unfolding v by simp
  from b a(3) have "map_of (BombSite_dummies (preprocess_revised ?df ! 2)) (''BombSite_'' @ ''A'')
           = Some (if BombSite (?df ! 2) = Some ''A'' then 1 else 0)" by blast
  then have w3: "map_of (BombSite_dummies (preprocess_revised ?df ! 2)) ''BombSite_A'' = Some 1"
    unfolding v by simp
  from w1 w2 w3 r show ?thesis unfolding v by simp
qed

section \<open>Properties of the standardization\<close>

lemma columns_values_of:
  assumes "X \<noteq> []"
  shows "columns (values_of cols X) = map (\<lambda>c. map (\<lambda>r. r c) X) cols"
proof -
  have h: "length (hd (values_of cols X)) = length cols"
    using assms by (cases X) (simp_all add: values_of_def)
  have "columns (values_of cols X) = map (\<lambda>j. map (\<lambda>r. r (cols ! j)) X) [0..<length cols]"
    unfolding columns_def h by (simp add: values_of_def o_def)
  also have "\<dots> = map (\<lambda>c. map (\<lambda>r. r c) X) (map (\<lambda>j. cols ! j) [0..<length cols])"
    by (simp add: o_def)
  also have "map (\<lambda>j. cols ! j) [0..<length cols] = cols" by (rule map_nth)
  finally show ?thesis .
qed

lemma np_mean_column: "np_mean (map (\<lambda>r. r c) X) = train_mean X c"
  by (simp add: np_mean_def train_mean_def)

lemma np_var_column: "sqrt (np_var (map (\<lambda>r. r c) X)) = train_std X c"
  by (simp add: np_var_def np_mean_def train_std_def train_mean_def o_def)

lemma fit_values_of:
  assumes "X \<noteq> []"
  shows "fit (values_of cols X) =
     Inr \<lparr>mean_of = map (train_mean X) cols,
          scale_of = map (\<lambda>c. handle_zeros_in_scale (train_std X c)) cols\<rparr>"
proof -
  have "values_of cols X \<noteq> []" using assms by (simp add: values_of_def)
  then show ?thesis
    by (simp add: fit_def columns_values_of [OF assms] o_def np_mean_column np_var_column)
qed

lemma zip3_map: "zip (map f cs) (zip (map g cs) (map h cs)) = map (\<lambda>c. (f c, g c, h c)) cs"
  by (induction cs) auto

lemma transform_values_of:
  assumes "Y \<noteq> []"
  shows "transform \<lparr>mean_of = map m cols, scale_of = map s cols\<rparr> (values_of cols Y) =
     Inr (map (\<lambda>r. map (\<lambda>c. (r c - m c) / s c) cols) Y)"
  using assms by (simp add: transform_def values_of_def zip3_map o_def)

lemma assign_row_map:
  "assign_row cols (map f cols) r = (\<lambda>c. if c \<in> set cols then f c else r c)"
proof (induction cols arbitrary: r)
  case Nil
  show ?case by (simp add: assign_row_def)
next
  case (Cons a cols)
  have "assign_row (a # cols) (map f (a # cols)) r = assign_row cols (map f cols) (r(a := f a))"
    by (simp add: assign_row_def)
  also have "\<dots> = (\<lambda>c. if c \<in> set cols then f c else (r(a := f a)) c)"
    by (rule Cons.IH)
  also have "\<dots> = (\<lambda>c. if c \<in> set (a # cols) then f c else r c)"
    by auto
  finally show ?case .
qed

lemma assign_map:
  "assign cols (map (\<lambda>r. map (f r) cols) Y) Y = map (\<lambda>r c. if c \<in> set cols then f r c else r c) Y"
  by (induction Y) (simp_all add: assign_def assign_row_map)

lemma standardize_Inr:
  assumes tr: "X_train \<noteq> []" and te: "X_test \<noteq> []"
  shows "standardize X_train X_test =
     Inr (map (\<lambda>r c. if c \<in> set cols_scaled
                      then (r c - train_mean X_train c) / handle_zeros_in_scale (train_std X_train c)
                      else r c) X_train,
          map (\<lambda>r c. if c \<in> set cols_scaled
                      then (r c - train_mean X_train c) / handle_zeros_in_scale (train_std X_train c)
                      else r c) X_test)"
  unfolding standardize_def Let_def fit_values_of [OF tr]
  by (simp add: transform_values_of [OF tr] transform_values_of [OF te] assign_map)


text \<open>
  C6, as stated, divides by the standard deviation of the training column. For a column
  that is constant over the training rows this deviation is 0, and the scaler divides by
  1 instead: a test value 1 of a training column of zeros becomes 1, where the quotient
  \<open>(1 - 0) / 0\<close> of the claim is undefined (and 0 in HOL).
\<close>

theorem C6_constant_training_column_is_not_divided:
  "train_mean [all_zero] ''BombPlanted'' = 0 \<and> train_std [all_zero] ''BombPlanted'' = 0
   \<and> (snd (projr (standardize [all_zero] [all_one])) ! 0) ''BombPlanted'' = 1
   \<and> (1 - train_mean [all_zero] ''BombPlanted'') / train_std [all_zero] ''BombPlanted'' \<noteq> 1"
proof -
  have m: "train_mean [all_zero] ''BombPlanted'' = 0"
    by (simp add: train_mean_def all_zero_def)
  have s: "train_std [all_zero] ''BombPlanted'' = 0"
    by (simp add: train_std_def train_mean_def all_zero_def)
  have "standardize [all_zero] [all_one] =
     Inr (map (\<lambda>r c. if c \<in> set cols_scaled
                      then (r c - train_mean [all_zero] c) / handle_zeros_in_scale (train_std [all_zero] c)
                      else r c) [all_zero],
          map (\<lambda>r c. if c \<in> set cols_scaled
                      then (r c - train_mean [all_zero] c) / handle_zeros_in_scale (train_std [all_zero] c)
                      else r c) [all_one])"
    by (rule standardize_Inr) simp_all
  then have "(snd (projr (standardize [all_zero] [all_one])) ! 0) ''BombPlanted'' = 1"
    by (simp add: m s handle_zeros_in_scale_def cols_scaled_def all_one_def)
  with m s show ?thesis by simp
qed

text \<open>
  C6, amended: with at least one training row and one test row, the standardization
  succeeds; mean and standard deviation of every column of \<open>cols_scaled\<close> are taken over
  the training rows only, and the same map \<open>x \<mapsto> (x - train_mean) / s\<close> is applied to the
  training and to the test values of the column, where \<open>s\<close> is the standard deviation of
  the training column, or 1 when that is 0. Every other column keeps its value in both
  matrices.
\<close>

theorem C6_standardization:
  assumes tr: "X_train \<noteq> []" and te: "X_test \<noteq> []"
  shows "\<exists>X_train_scaled X_test_scaled.
     standardize X_train X_test = Inr (X_train_scaled, X_test_scaled)
     \<and> length X_train_scaled = length X_train \<and> length X_test_scaled = length X_test
     \<and> (\<forall>i c. i < length X_train \<longrightarrow> (X_train_scaled ! i) c =
           (if c \<in> set cols_scaled
            then ((X_train ! i) c - train_mean X_train c)
                 / (if train_std X_train c = 0 then 1 else train_std X_train c)
            else (X_train ! i) c))
     \<and> (\<forall>i c. i < length X_test \<longrightarrow> (X_test_scaled ! i) c =
           (if c \<in> set cols_scaled
            then ((X_test ! i) c - train_mean X_train c)
                 / (if train_std X_train c = 0 then 1 else train_std X_train c)
            else (X_test ! i) c))"
  unfolding standardize_Inr [OF tr te]
  by (simp add: handle_zeros_in_scale_def)

theorem C6_standardization_witness:
  "train_mean [\<lambda>c. 1, \<lambda>c. 3] ''CTEqVal'' = 2 \<and> train_std [\<lambda>c. 1, \<lambda>c. 3] ''CTEqVal'' = 1
   \<and> (snd (projr (standardize [\<lambda>c. 1, \<lambda>c. 3] [\<lambda>c. 5])) ! 0) ''CTEqVal'' = 3
   \<and> (snd (projr (standardize [\<lambda>c. 1, \<lambda>c. 3] [\<lambda>c. 5])) ! 0) ''MapName_de_nuke'' = 5"
proof -
  let ?A = "[\<lambda>c. 1, \<lambda>c. 3] :: xrow list"
  let ?B = "[\<lambda>c. 5] :: xrow list"
  have h1: "?A \<noteq> []" and h2: "?B \<noteq> []" by simp_all
  have m: "train_mean ?A ''CTEqVal'' = 2" by (simp add: train_mean_def)
  have s: "train_std ?A ''CTEqVal'' = 1" by (simp add: train_std_def train_mean_def)
  have c: "''CTEqVal'' \<in> set cols_scaled" "''MapName_de_nuke'' \<notin> set cols_scaled"
    by (simp_all add: cols_scaled_def)
  from C6_standardization [OF h1 h2] obtain trs tes where
    e: "standardize ?A ?B = Inr (trs, tes)"
    and t: "\<forall>i c. i < length ?B \<longrightarrow> (tes ! i) c =
           (if c \<in> set cols_scaled
            then ((?B ! i) c - train_mean ?A c)
                 / (if train_std ?A c = 0 then 1 else train_std ?A c)
            else (?B ! i) c)"
    by blast
  from t have "(tes ! 0) ''CTEqVal'' = 3" "(tes ! 0) ''MapName_de_nuke'' = 5"
    using c m s by simp_all
  with e m s show ?thesis by simp
qed

section \<open>Properties of the grid search\<close>





















lemma tuning_cell_too_few_rows:
  assumes "length data < 5" "length (shuffled (length data)) = length data"
  shows "tuning_cell lib est g file_name shuffled data X_test y_test =
     \<lparr>models_dir = Map.empty, printed = [], raised = Some ValueError\<rparr>"
  using assms
  by (simp add: tuning_cell_def GridSearchCV_fit_def get_scorer_def KFold_split_def)










end
